theory Spec2Isabelle
  imports Complex_Main
begin

section \<open>Tensors and Python errors\<close>

text \<open>
  A tensor is its shape together with its elements, read by a multi-index. The elements
  are real numbers: the model is the exact-arithmetic reading of the float32 program.
  Only the elements at indices inside the shape belong to the tensor.
\<close>

record tensor =
  shape :: "nat list"
  elem :: "nat list \<Rightarrow> real"

definition in_bounds :: "nat list \<Rightarrow> nat list \<Rightarrow> bool" where
  "in_bounds sh idx = list_all2 (\<lambda>i d. i < d) idx sh"

text \<open>
  The exceptions the program can raise. None of them is declared by the program itself:
  \<open>RuntimeError\<close> is what torch raises on a shape mismatch, \<open>EinopsError\<close> what einops
  raises on a pattern that does not fit, the others are Python's own.
\<close>

datatype error = RuntimeError | EinopsError | ValueError | AttributeError | ZeroDivisionError

definition bind_err :: "error + 'a \<Rightarrow> ('a \<Rightarrow> error + 'b) \<Rightarrow> error + 'b" where
  "bind_err r f = (case r of Inl e \<Rightarrow> Inl e | Inr v \<Rightarrow> f v)"

definition result_shape :: "error + tensor \<Rightarrow> error + nat list" where
  "result_shape r = (case r of Inl e \<Rightarrow> Inl e | Inr t \<Rightarrow> Inr (shape t))"

section \<open>The library layers the program is built from\<close>

text \<open>
  The layers are described as torch and einops run them on sizes that are not zero; the
  statements about the model ask for non-zero channel counts and embedding sizes.
\<close>

subsection \<open>In-place addition with broadcasting\<close>

text \<open>
  \<open>x += r\<close> on tensors: \<open>r\<close> is broadcast to the shape of \<open>x\<close> (aligned at the last
  axis, an axis of length 1 is repeated); \<open>x\<close> keeps its shape, so \<open>r\<close> must fit into it.
\<close>

definition broadcastable_to :: "nat list \<Rightarrow> nat list \<Rightarrow> bool" where
  "broadcastable_to rs xs \<longleftrightarrow>
     length rs \<le> length xs \<and>
     list_all2 (\<lambda>r d. r = d \<or> r = 1) rs (drop (length xs - length rs) xs)"

definition broadcast_index :: "nat list \<Rightarrow> nat list \<Rightarrow> nat list" where
  "broadcast_index rs idx =
     map2 (\<lambda>r i. if r = 1 then 0 else i) rs (drop (length idx - length rs) idx)"

definition iadd :: "tensor \<Rightarrow> tensor \<Rightarrow> error + tensor" where
  "iadd x r =
     (if broadcastable_to (shape r) (shape x)
      then Inr \<lparr>shape = shape x,
                elem = (\<lambda>idx. elem x idx + elem r (broadcast_index (shape r) idx))\<rparr>
      else Inl RuntimeError)"

subsection \<open>nn.Conv2d\<close>

record Conv2d =
  conv_in :: nat
  conv_out :: nat
  conv_kernel :: nat
  conv_stride :: nat
  conv_weight :: "nat list \<Rightarrow> real"
  conv_bias :: "nat list \<Rightarrow> real"

text \<open>
  No padding, no dilation, square kernel. The output extent along an axis of length \<open>h\<close>
  is \<open>(h - kernel) div stride + 1\<close>; an input with the wrong channel count, or smaller
  than the kernel, is refused with RuntimeError. (The program calls the layer on rank-4
  input only: the forward pass unpacks four dimensions first.)
\<close>

definition Conv2d_forward :: "Conv2d \<Rightarrow> tensor \<Rightarrow> error + tensor" where
  "Conv2d_forward c x =
     (case shape x of
        [b, ch, h, w] \<Rightarrow>
          if ch \<noteq> conv_in c then Inl RuntimeError
          else if conv_stride c = 0 then Inl RuntimeError
          else if h < conv_kernel c \<or> w < conv_kernel c then Inl RuntimeError
          else Inr \<lparr>shape = [b, conv_out c,
                              (h - conv_kernel c) div conv_stride c + 1,
                              (w - conv_kernel c) div conv_stride c + 1],
                    elem = (\<lambda>idx. case idx of
                       [n, e, i, j] \<Rightarrow>
                         conv_bias c [e] +
                         (\<Sum>k<ch. \<Sum>u<conv_kernel c. \<Sum>v<conv_kernel c.
                            conv_weight c [e, k, u, v] *
                            elem x [n, k, i * conv_stride c + u, j * conv_stride c + v])
                     | _ \<Rightarrow> 0)\<rparr>
      | _ \<Rightarrow> Inl RuntimeError)"

subsection \<open>einops patterns and torch.cat\<close>

text \<open>\<open>Rearrange('b e (h) (w) -> b (h w) e')\<close>: the grid of patches, flattened row by row.\<close>

definition Rearrange_patches :: "tensor \<Rightarrow> error + tensor" where
  "Rearrange_patches x =
     (case shape x of
        [b, e, h, w] \<Rightarrow>
          Inr \<lparr>shape = [b, h * w, e],
               elem = (\<lambda>idx. case idx of
                  [n, t, c] \<Rightarrow> elem x [n, c, t div w, t mod w]
                | _ \<Rightarrow> 0)\<rparr>
      | _ \<Rightarrow> Inl EinopsError)"

text \<open>\<open>repeat(t, '() n e -> b n e', b=b)\<close>: the first axis must have length 1.\<close>

definition repeat_batch :: "tensor \<Rightarrow> nat \<Rightarrow> error + tensor" where
  "repeat_batch t b =
     (case shape t of
        [one, n, e] \<Rightarrow>
          if one \<noteq> 1 then Inl EinopsError
          else Inr \<lparr>shape = [b, n, e],
                    elem = (\<lambda>idx. case idx of
                       [i, k, c] \<Rightarrow> elem t [0, k, c]
                     | _ \<Rightarrow> 0)\<rparr>
      | _ \<Rightarrow> Inl EinopsError)"

text \<open>\<open>torch.cat([a, x], dim=1)\<close> on rank-3 tensors.\<close>

definition cat_dim1 :: "tensor \<Rightarrow> tensor \<Rightarrow> error + tensor" where
  "cat_dim1 a x =
     (case (shape a, shape x) of
        ([b, n, e], [b', n', e']) \<Rightarrow>
          if b \<noteq> b' \<or> e \<noteq> e' then Inl RuntimeError
          else Inr \<lparr>shape = [b, n + n', e],
                    elem = (\<lambda>idx. case idx of
                       [i, t, c] \<Rightarrow> if t < n then elem a [i, t, c] else elem x [i, t - n, c]
                     | _ \<Rightarrow> 0)\<rparr>
      | _ \<Rightarrow> Inl RuntimeError)"

subsection \<open>nn.Linear, nn.LayerNorm, nn.GELU, nn.Dropout\<close>

record Linear =
  lin_in :: nat
  lin_out :: nat
  lin_weight :: "nat list \<Rightarrow> real"
  lin_bias :: "nat list \<Rightarrow> real"

text \<open>A linear map of the last axis; any other length of that axis is a RuntimeError.\<close>

definition Linear_forward :: "Linear \<Rightarrow> tensor \<Rightarrow> error + tensor" where
  "Linear_forward l x =
     (if shape x = [] \<or> last (shape x) \<noteq> lin_in l then Inl RuntimeError
      else Inr \<lparr>shape = butlast (shape x) @ [lin_out l],
                elem = (\<lambda>idx. lin_bias l [last idx] +
                         (\<Sum>k<lin_in l. elem x (butlast idx @ [k]) * lin_weight l [last idx, k]))\<rparr>)"

record LayerNorm =
  ln_dim :: nat
  ln_weight :: "nat list \<Rightarrow> real"
  ln_bias :: "nat list \<Rightarrow> real"

definition ln_eps :: real where
  "ln_eps = 1 / 100000"

definition LayerNorm_forward :: "LayerNorm \<Rightarrow> tensor \<Rightarrow> error + tensor" where
  "LayerNorm_forward l x =
     (if shape x = [] \<or> last (shape x) \<noteq> ln_dim l then Inl RuntimeError
      else Inr \<lparr>shape = shape x,
                elem = (\<lambda>idx.
                   let row = (\<lambda>k. elem x (butlast idx @ [k]));
                       mu = (\<Sum>k<ln_dim l. row k) / real (ln_dim l);
                       var = (\<Sum>k<ln_dim l. (row k - mu) ^ 2) / real (ln_dim l)
                   in (elem x idx - mu) / sqrt (var + ln_eps) * ln_weight l [last idx]
                      + ln_bias l [last idx])\<rparr>)"

definition erf :: "real \<Rightarrow> real" where
  "erf x = 2 / sqrt pi * (\<Sum>n. (- 1) ^ n * x ^ (2 * n + 1) / (fact n * real (2 * n + 1)))"

definition GELU_forward :: "tensor \<Rightarrow> tensor" where
  "GELU_forward x = x\<lparr>elem := (\<lambda>idx. elem x idx * (1 + erf (elem x idx / sqrt 2)) / 2)\<rparr>"

record Dropout =
  drop_prob :: real

definition Dropout_init :: "real \<Rightarrow> error + Dropout" where
  "Dropout_init p = (if p < 0 \<or> 1 < p then Inl ValueError else Inr \<lparr>drop_prob = p\<rparr>)"

text \<open>
  Dropout acts in training mode only, and not at all with probability 0. The sample it
  draws (which elements it keeps) is the argument \<open>keep\<close>; a kept element is scaled by
  \<open>1 / (1 - p)\<close>.
\<close>

definition Dropout_forward :: "Dropout \<Rightarrow> bool \<Rightarrow> (nat list \<Rightarrow> bool) \<Rightarrow> tensor \<Rightarrow> tensor" where
  "Dropout_forward d training keep x =
     (if training \<and> drop_prob d \<noteq> 0
      then x\<lparr>elem := (\<lambda>idx. if keep idx then elem x idx / (1 - drop_prob d) else 0)\<rparr>
      else x)"

subsection \<open>The tensor operations of the attention layer\<close>

text \<open>
  \<open>rearrange(t, "b n (h d qkv) -> (qkv) b h n d", h=h, qkv=3)\<close>: einops divides the
  length of the last axis by the product \<open>h * 3\<close> of the known factors.
\<close>

definition rearrange_qkv :: "nat \<Rightarrow> tensor \<Rightarrow> error + tensor" where
  "rearrange_qkv h t =
     (case shape t of
        [b, n, c] \<Rightarrow>
          if h * 3 = 0 then Inl ZeroDivisionError
          else if c mod (h * 3) \<noteq> 0 then Inl EinopsError
          else let d = c div (h * 3) in
            Inr \<lparr>shape = [3, b, h, n, d],
                 elem = (\<lambda>idx. case idx of
                    [k, i, j, q, u] \<Rightarrow> elem t [i, q, (j * d + u) * 3 + k]
                  | _ \<Rightarrow> 0)\<rparr>
      | _ \<Rightarrow> Inl EinopsError)"

text \<open>\<open>t[i]\<close>: the slice at position \<open>i\<close> of the first axis.\<close>

definition select0 :: "tensor \<Rightarrow> nat \<Rightarrow> tensor" where
  "select0 t i = \<lparr>shape = tl (shape t), elem = (\<lambda>idx. elem t (i # idx))\<rparr>"

text \<open>\<open>einsum('bhqd, bhkd -> bhqk', q, k)\<close>\<close>

definition einsum_qk :: "tensor \<Rightarrow> tensor \<Rightarrow> error + tensor" where
  "einsum_qk q k =
     (case (shape q, shape k) of
        ([b, h, n, d], [b', h', n', d']) \<Rightarrow>
          if b \<noteq> b' \<or> h \<noteq> h' \<or> d \<noteq> d' then Inl RuntimeError
          else Inr \<lparr>shape = [b, h, n, n'],
                    elem = (\<lambda>idx. case idx of
                       [i, j, a, l] \<Rightarrow> (\<Sum>u<d. elem q [i, j, a, u] * elem k [i, j, l, u])
                     | _ \<Rightarrow> 0)\<rparr>
      | _ \<Rightarrow> Inl RuntimeError)"

text \<open>\<open>einsum('bhal, bhlv -> bhav', att, v)\<close>\<close>

definition einsum_av :: "tensor \<Rightarrow> tensor \<Rightarrow> error + tensor" where
  "einsum_av a v =
     (case (shape a, shape v) of
        ([b, h, n, l], [b', h', l', d]) \<Rightarrow>
          if b \<noteq> b' \<or> h \<noteq> h' \<or> l \<noteq> l' then Inl RuntimeError
          else Inr \<lparr>shape = [b, h, n, d],
                    elem = (\<lambda>idx. case idx of
                       [i, j, q, u] \<Rightarrow> (\<Sum>k<l. elem a [i, j, q, k] * elem v [i, j, k, u])
                     | _ \<Rightarrow> 0)\<rparr>
      | _ \<Rightarrow> Inl RuntimeError)"

text \<open>\<open>F.softmax(t, dim=-1)\<close>\<close>

definition softmax_last :: "tensor \<Rightarrow> tensor" where
  "softmax_last t =
     t\<lparr>elem := (\<lambda>idx. exp (elem t idx) /
                  (\<Sum>k<last (shape t). exp (elem t (butlast idx @ [k]))))\<rparr>"

definition div_scalar :: "tensor \<Rightarrow> real \<Rightarrow> tensor" where
  "div_scalar t c = t\<lparr>elem := (\<lambda>idx. elem t idx / c)\<rparr>"

text \<open>\<open>rearrange(t, "b h n d -> b n (h d)")\<close>\<close>

definition rearrange_heads :: "tensor \<Rightarrow> error + tensor" where
  "rearrange_heads t =
     (case shape t of
        [b, h, n, d] \<Rightarrow>
          Inr \<lparr>shape = [b, n, h * d],
               elem = (\<lambda>idx. case idx of
                  [i, q, c] \<Rightarrow> elem t [i, c div d, q, c mod d]
                | _ \<Rightarrow> 0)\<rparr>
      | _ \<Rightarrow> Inl EinopsError)"

text \<open>\<open>Reduce('b n e -> b e', reduction='mean')\<close>\<close>

definition reduce_mean :: "tensor \<Rightarrow> error + tensor" where
  "reduce_mean t =
     (case shape t of
        [b, n, e] \<Rightarrow>
          Inr \<lparr>shape = [b, e],
               elem = (\<lambda>idx. case idx of
                  [i, c] \<Rightarrow> (\<Sum>k<n. elem t [i, k, c]) / real n
                | _ \<Rightarrow> 0)\<rparr>
      | _ \<Rightarrow> Inl EinopsError)"

section \<open>PatchEmbedding\<close>

record PatchEmbedding =
  pe_patch_size :: nat
  pe_projection :: Conv2d
  pe_cls_token :: tensor
  pe_positions :: tensor

text \<open>
  The parameter values (\<open>torch.randn\<close> and the layer initialisers draw them at
  construction, training changes them later) are an argument of the constructor.
\<close>

record PatchEmbedding_params =
  conv_w :: "nat list \<Rightarrow> real"
  conv_b :: "nat list \<Rightarrow> real"
  cls_w :: "nat list \<Rightarrow> real"
  pos_w :: "nat list \<Rightarrow> real"

definition PatchEmbedding_init ::
  "nat \<Rightarrow> nat \<Rightarrow> nat \<Rightarrow> nat \<Rightarrow> PatchEmbedding_params \<Rightarrow> error + PatchEmbedding" where
  "PatchEmbedding_init c p e s \<theta> =
     (if p = 0 then Inl ZeroDivisionError
      else Inr \<lparr>pe_patch_size = p,
                pe_projection = \<lparr>conv_in = c, conv_out = e, conv_kernel = p, conv_stride = p,
                                  conv_weight = conv_w \<theta>, conv_bias = conv_b \<theta>\<rparr>,
                pe_cls_token = \<lparr>shape = [1, 1, e], elem = cls_w \<theta>\<rparr>,
                pe_positions = \<lparr>shape = [(s div p) ^ 2 + 1, e], elem = pos_w \<theta>\<rparr>\<rparr>)"

definition PatchEmbedding_forward :: "PatchEmbedding \<Rightarrow> tensor \<Rightarrow> error + tensor" where
  "PatchEmbedding_forward pe x =
     (case shape x of
        [b, _, _, _] \<Rightarrow>
          bind_err (Conv2d_forward (pe_projection pe) x) (\<lambda>x1.
          bind_err (Rearrange_patches x1) (\<lambda>x2.
          bind_err (repeat_batch (pe_cls_token pe) b) (\<lambda>cls_tokens.
          bind_err (cat_dim1 cls_tokens x2) (\<lambda>x3.
          iadd x3 (pe_positions pe)))))
      | _ \<Rightarrow> Inl ValueError)"

section \<open>MultiHeadAttention\<close>

record MultiHeadAttention =
  mha_emb_size :: nat
  mha_num_heads :: nat
  mha_qkv :: Linear
  mha_att_drop :: Dropout
  mha_projection :: Linear

record MultiHeadAttention_params =
  qkv_w :: "nat list \<Rightarrow> real"
  qkv_b :: "nat list \<Rightarrow> real"
  proj_w :: "nat list \<Rightarrow> real"
  proj_b :: "nat list \<Rightarrow> real"

definition MultiHeadAttention_init ::
  "nat \<Rightarrow> nat \<Rightarrow> real \<Rightarrow> MultiHeadAttention_params \<Rightarrow> error + MultiHeadAttention" where
  "MultiHeadAttention_init e h p \<theta> =
     bind_err (Dropout_init p) (\<lambda>d.
       Inr \<lparr>mha_emb_size = e, mha_num_heads = h,
            mha_qkv = \<lparr>lin_in = e, lin_out = e * 3, lin_weight = qkv_w \<theta>, lin_bias = qkv_b \<theta>\<rparr>,
            mha_att_drop = d,
            mha_projection = \<lparr>lin_in = e, lin_out = e, lin_weight = proj_w \<theta>, lin_bias = proj_b \<theta>\<rparr>\<rparr>)"

text \<open>
  The masking branch of \<open>forward\<close>: it calls \<open>energy.mask_fill(~mask, fill_value)\<close>, and a
  torch tensor has no attribute \<open>mask_fill\<close> (the methods are \<open>masked_fill\<close> and
  \<open>masked_fill_\<close>), so the attribute lookup raises before anything is filled.
\<close>

definition mask_branch :: "tensor \<Rightarrow> tensor option \<Rightarrow> error + tensor" where
  "mask_branch energy msk = (case msk of None \<Rightarrow> Inr energy | Some mk \<Rightarrow> Inl AttributeError)"

text \<open>
  \<open>forward\<close> in three parts: the scores \<open>energy\<close> (returned with \<open>values\<close>), the
  attention weights \<open>att\<close> after masking, softmax, scaling and dropout, and the weighted
  sum with the output projection.
\<close>

definition MHA_energy :: "MultiHeadAttention \<Rightarrow> tensor \<Rightarrow> error + (tensor \<times> tensor)" where
  "MHA_energy m x =
     bind_err (Linear_forward (mha_qkv m) x) (\<lambda>y.
     bind_err (rearrange_qkv (mha_num_heads m) y) (\<lambda>qkv.
       let queries = select0 qkv 0; keys = select0 qkv 1; values = select0 qkv 2 in
       bind_err (einsum_qk queries keys) (\<lambda>energy. Inr (energy, values))))"

definition MHA_attention ::
  "MultiHeadAttention \<Rightarrow> bool \<Rightarrow> (nat list \<Rightarrow> bool) \<Rightarrow> tensor \<Rightarrow> tensor option
     \<Rightarrow> error + (tensor \<times> tensor)" where
  "MHA_attention m training keep x msk =
     bind_err (MHA_energy m x) (\<lambda>(energy, values).
     bind_err (mask_branch energy msk) (\<lambda>energy.
       let scaling = sqrt (real (mha_emb_size m));
           att = div_scalar (softmax_last energy) scaling;
           att = Dropout_forward (mha_att_drop m) training keep att
       in Inr (att, values)))"

definition MultiHeadAttention_forward ::
  "MultiHeadAttention \<Rightarrow> bool \<Rightarrow> (nat list \<Rightarrow> bool) \<Rightarrow> tensor \<Rightarrow> tensor option
     \<Rightarrow> error + tensor" where
  "MultiHeadAttention_forward m training keep x msk =
     bind_err (MHA_attention m training keep x msk) (\<lambda>(att, values).
     bind_err (einsum_av att values) (\<lambda>out.
     bind_err (rearrange_heads out) (\<lambda>out.
     Linear_forward (mha_projection m) out)))"

section \<open>ResidualAdd\<close>

text \<open>
  \<open>x += res\<close> updates the tensor object that \<open>fn\<close> returned, which may be the very object
  that came in. Tensor objects therefore live in a store and are passed by reference; a
  sub-module is a function on references that may read and update the store.
\<close>

type_synonym ref = nat
type_synonym store = "tensor list"
type_synonym module = "ref \<Rightarrow> store \<Rightarrow> error + (ref \<times> store)"

definition ResidualAdd_forward :: "module \<Rightarrow> module" where
  "ResidualAdd_forward fn x s =
     (let res = x in
      case fn x s of
        Inl e \<Rightarrow> Inl e
      | Inr (x', s') \<Rightarrow>
          (case iadd (s' ! x') (s' ! res) of
             Inl e \<Rightarrow> Inl e
           | Inr t \<Rightarrow> Inr (x', s'[x' := t])))"


text \<open>A sub-module that computes its result into a new tensor object.\<close>

definition functional :: "(tensor \<Rightarrow> error + tensor) \<Rightarrow> module" where
  "functional f x s =
     (case f (s ! x) of Inl e \<Rightarrow> Inl e | Inr y \<Rightarrow> Inr (length s, s @ [y]))"

text \<open>Calling a module on a tensor value: the argument is the only object of the store.\<close>

definition call :: "module \<Rightarrow> tensor \<Rightarrow> error + tensor" where
  "call m x = (case m 0 [x] of Inl e \<Rightarrow> Inl e | Inr (r, s) \<Rightarrow> Inr (s ! r))"

section \<open>FeedForwardBlock, TransformerEncoderBlock, TransformerEncoder\<close>

record FeedForwardBlock =
  ff_lin1 :: Linear
  ff_drop :: Dropout
  ff_lin2 :: Linear

record FeedForwardBlock_params =
  ff1_w :: "nat list \<Rightarrow> real"
  ff1_b :: "nat list \<Rightarrow> real"
  ff2_w :: "nat list \<Rightarrow> real"
  ff2_b :: "nat list \<Rightarrow> real"

definition FeedForwardBlock_init ::
  "nat \<Rightarrow> nat \<Rightarrow> real \<Rightarrow> FeedForwardBlock_params \<Rightarrow> error + FeedForwardBlock" where
  "FeedForwardBlock_init e expansion p \<theta> =
     bind_err (Dropout_init p) (\<lambda>d.
       Inr \<lparr>ff_lin1 = \<lparr>lin_in = e, lin_out = expansion * e,
                        lin_weight = ff1_w \<theta>, lin_bias = ff1_b \<theta>\<rparr>,
            ff_drop = d,
            ff_lin2 = \<lparr>lin_in = expansion * e, lin_out = e,
                        lin_weight = ff2_w \<theta>, lin_bias = ff2_b \<theta>\<rparr>\<rparr>)"

definition FeedForwardBlock_forward ::
  "FeedForwardBlock \<Rightarrow> bool \<Rightarrow> (nat list \<Rightarrow> bool) \<Rightarrow> tensor \<Rightarrow> error + tensor" where
  "FeedForwardBlock_forward f training keep x =
     bind_err (Linear_forward (ff_lin1 f) x) (\<lambda>x.
       Linear_forward (ff_lin2 f) (Dropout_forward (ff_drop f) training keep (GELU_forward x)))"

record TransformerEncoderBlock =
  norm1 :: LayerNorm
  attention :: MultiHeadAttention
  drop1 :: Dropout
  norm2 :: LayerNorm
  feed_forward :: FeedForwardBlock
  drop2 :: Dropout

record TransformerEncoderBlock_params =
  norm1_w :: "nat list \<Rightarrow> real"
  norm1_b :: "nat list \<Rightarrow> real"
  attention_params :: MultiHeadAttention_params
  norm2_w :: "nat list \<Rightarrow> real"
  norm2_b :: "nat list \<Rightarrow> real"
  feed_forward_params :: FeedForwardBlock_params

text \<open>
  The keyword arguments a block passes on to its attention layer are \<open>num_heads\<close> and
  \<open>dropout\<close>. The sub-modules are constructed in the order of the source, so the first
  invalid dropout probability raises.
\<close>

definition TransformerEncoderBlock_init ::
  "nat \<Rightarrow> real \<Rightarrow> nat \<Rightarrow> real \<Rightarrow> nat \<Rightarrow> real \<Rightarrow> TransformerEncoderBlock_params
     \<Rightarrow> error + TransformerEncoderBlock" where
  "TransformerEncoderBlock_init e p expansion fp h ap \<theta> =
     bind_err (MultiHeadAttention_init e h ap (attention_params \<theta>)) (\<lambda>att.
     bind_err (Dropout_init p) (\<lambda>d1.
     bind_err (FeedForwardBlock_init e expansion fp (feed_forward_params \<theta>)) (\<lambda>ff.
     bind_err (Dropout_init p) (\<lambda>d2.
       Inr \<lparr>norm1 = \<lparr>ln_dim = e, ln_weight = norm1_w \<theta>, ln_bias = norm1_b \<theta>\<rparr>,
            attention = att, drop1 = d1,
            norm2 = \<lparr>ln_dim = e, ln_weight = norm2_w \<theta>, ln_bias = norm2_b \<theta>\<rparr>,
            feed_forward = ff, drop2 = d2\<rparr>))))"

text \<open>
  The dropout layers of a block draw independent samples: \<open>noise 0\<close> for the attention
  weights, \<open>noise 1\<close> after attention, \<open>noise 2\<close> inside the feed-forward block, \<open>noise 3\<close>
  after it. A block is called with the tensor only, so its attention layer never gets
  a mask.
\<close>

type_synonym noise = "nat \<Rightarrow> nat list \<Rightarrow> bool"

definition attention_stage :: "TransformerEncoderBlock \<Rightarrow> bool \<Rightarrow> noise \<Rightarrow> tensor \<Rightarrow> error + tensor" where
  "attention_stage blk training noise x =
     bind_err (LayerNorm_forward (norm1 blk) x) (\<lambda>x.
     bind_err (MultiHeadAttention_forward (attention blk) training (noise 0) x None) (\<lambda>x.
       Inr (Dropout_forward (drop1 blk) training (noise 1) x)))"

definition feed_forward_stage :: "TransformerEncoderBlock \<Rightarrow> bool \<Rightarrow> noise \<Rightarrow> tensor \<Rightarrow> error + tensor" where
  "feed_forward_stage blk training noise x =
     bind_err (LayerNorm_forward (norm2 blk) x) (\<lambda>x.
     bind_err (FeedForwardBlock_forward (feed_forward blk) training (noise 2) x) (\<lambda>x.
       Inr (Dropout_forward (drop2 blk) training (noise 3) x)))"

definition TransformerEncoderBlock_forward ::
  "TransformerEncoderBlock \<Rightarrow> bool \<Rightarrow> noise \<Rightarrow> tensor \<Rightarrow> error + tensor" where
  "TransformerEncoderBlock_forward blk training noise x =
     bind_err (call (ResidualAdd_forward (functional (attention_stage blk training noise))) x) (\<lambda>x.
       call (ResidualAdd_forward (functional (feed_forward_stage blk training noise))) x)"

fun collect :: "(error + 'a) list \<Rightarrow> error + 'a list" where
  "collect [] = Inr []"
| "collect (r # rs) = bind_err r (\<lambda>v. bind_err (collect rs) (\<lambda>vs. Inr (v # vs)))"

record encoder_config =
  emb_size :: nat
  drop_p :: real
  forward_expansion :: nat
  forward_drop_p :: real
  num_heads :: nat
  dropout :: real

definition TransformerEncoder_init ::
  "nat \<Rightarrow> 'a encoder_config_scheme \<Rightarrow> (nat \<Rightarrow> TransformerEncoderBlock_params)
     \<Rightarrow> error + TransformerEncoderBlock list" where
  "TransformerEncoder_init n kw \<theta> =
     collect (map (\<lambda>i. TransformerEncoderBlock_init (emb_size kw) (drop_p kw)
                          (forward_expansion kw) (forward_drop_p kw) (num_heads kw) (dropout kw)
                          (\<theta> i)) [0..<n])"

fun TransformerEncoder_forward ::
  "TransformerEncoderBlock list \<Rightarrow> bool \<Rightarrow> (nat \<Rightarrow> noise) \<Rightarrow> tensor \<Rightarrow> error + tensor" where
  "TransformerEncoder_forward [] training noise x = Inr x"
| "TransformerEncoder_forward (blk # blks) training noise x =
     bind_err (TransformerEncoderBlock_forward blk training (noise 0) x) (\<lambda>x.
       TransformerEncoder_forward blks training (\<lambda>i. noise (Suc i)) x)"

section \<open>ClassificationHead and ViT\<close>

record ClassificationHead =
  head_norm :: LayerNorm
  head_linear :: Linear

record ClassificationHead_params =
  head_norm_w :: "nat list \<Rightarrow> real"
  head_norm_b :: "nat list \<Rightarrow> real"
  head_w :: "nat list \<Rightarrow> real"
  head_b :: "nat list \<Rightarrow> real"

definition ClassificationHead_init :: "nat \<Rightarrow> nat \<Rightarrow> ClassificationHead_params \<Rightarrow> ClassificationHead" where
  "ClassificationHead_init e n \<theta> =
     \<lparr>head_norm = \<lparr>ln_dim = e, ln_weight = head_norm_w \<theta>, ln_bias = head_norm_b \<theta>\<rparr>,
      head_linear = \<lparr>lin_in = e, lin_out = n, lin_weight = head_w \<theta>, lin_bias = head_b \<theta>\<rparr>\<rparr>"

definition ClassificationHead_forward :: "ClassificationHead \<Rightarrow> tensor \<Rightarrow> error + tensor" where
  "ClassificationHead_forward ch x =
     bind_err (reduce_mean x) (\<lambda>x.
     bind_err (LayerNorm_forward (head_norm ch) x) (\<lambda>x.
       Linear_forward (head_linear ch) x))"

text \<open>The arguments of \<open>ViT\<close>: its own six and the keyword arguments it passes down.\<close>

record config = encoder_config +
  in_channels :: nat
  patch_size :: nat
  img_size :: nat
  depth :: nat
  n_classes :: nat

definition default_config :: config where
  "default_config =
     \<lparr>emb_size = 768, drop_p = 0, forward_expansion = 4, forward_drop_p = 0,
      num_heads = 8, dropout = 0,
      in_channels = 3, patch_size = 16, img_size = 224, depth = 12, n_classes = 1000\<rparr>"

record ViT =
  patch_embedding :: PatchEmbedding
  encoder :: "TransformerEncoderBlock list"
  head :: ClassificationHead

record ViT_params =
  patch_embedding_params :: PatchEmbedding_params
  encoder_params :: "nat \<Rightarrow> TransformerEncoderBlock_params"
  head_params :: ClassificationHead_params

definition ViT_init :: "config \<Rightarrow> ViT_params \<Rightarrow> error + ViT" where
  "ViT_init cfg \<theta> =
     bind_err (PatchEmbedding_init (in_channels cfg) (patch_size cfg) (emb_size cfg) (img_size cfg)
                 (patch_embedding_params \<theta>)) (\<lambda>pe.
     bind_err (TransformerEncoder_init (depth cfg) cfg (encoder_params \<theta>)) (\<lambda>enc.
       Inr \<lparr>patch_embedding = pe, encoder = enc,
            head = ClassificationHead_init (emb_size cfg) (n_classes cfg) (head_params \<theta>)\<rparr>))"

definition ViT_forward :: "ViT \<Rightarrow> bool \<Rightarrow> (nat \<Rightarrow> noise) \<Rightarrow> tensor \<Rightarrow> error + tensor" where
  "ViT_forward m training noise x =
     bind_err (PatchEmbedding_forward (patch_embedding m) x) (\<lambda>x.
     bind_err (TransformerEncoder_forward (encoder m) training noise x) (\<lambda>x.
       ClassificationHead_forward (head m) x))"

section \<open>Notions the statements below use\<close>


text \<open>Constructing a patch tokenizer and running it on \<open>x\<close>.\<close>

definition PatchEmbedding_result ::
  "PatchEmbedding_params \<Rightarrow> nat \<Rightarrow> nat \<Rightarrow> nat \<Rightarrow> nat \<Rightarrow> tensor \<Rightarrow> error + tensor" where
  "PatchEmbedding_result \<theta> c p e s x =
     bind_err (PatchEmbedding_init c p e s \<theta>) (\<lambda>pe. PatchEmbedding_forward pe x)"

text \<open>
  The embedding of one patch: component \<open>k\<close> of the linear projection of the tile in
  row \<open>i\<close> and column \<open>j\<close> of the grid of \<open>p \<times> p\<close> tiles of image \<open>n\<close>.
\<close>

definition tile_embedding ::
  "PatchEmbedding_params \<Rightarrow> nat \<Rightarrow> nat \<Rightarrow> tensor \<Rightarrow> nat \<Rightarrow> nat \<Rightarrow> nat \<Rightarrow> nat \<Rightarrow> real" where
  "tile_embedding \<theta> c p x n i j k =
     conv_b \<theta> [k] +
     (\<Sum>ch<c. \<Sum>u<p. \<Sum>v<p. conv_w \<theta> [k, ch, u, v] * elem x [n, ch, i * p + u, j * p + v])"

text \<open>
  A valid configuration: the two divisibility conditions of the specification, sizes
  that are not zero and dropout probabilities that are probabilities.
\<close>

definition valid_probabilities :: "'a encoder_config_scheme \<Rightarrow> bool" where
  "valid_probabilities kw \<longleftrightarrow>
     0 \<le> dropout kw \<and> dropout kw \<le> 1 \<and> 0 \<le> drop_p kw \<and> drop_p kw \<le> 1 \<and>
     0 \<le> forward_drop_p kw \<and> forward_drop_p kw \<le> 1"

definition valid_config :: "config \<Rightarrow> bool" where
  "valid_config cfg \<longleftrightarrow>
     0 < in_channels cfg \<and>
     0 < patch_size cfg \<and> 0 < img_size cfg \<and> img_size cfg mod patch_size cfg = 0 \<and>
     0 < num_heads cfg \<and> 0 < emb_size cfg \<and> emb_size cfg mod num_heads cfg = 0 \<and>
     valid_probabilities cfg"

text \<open>Inputs for concrete runs: \<open>torch.zeros\<close> and parameters that all hold one value.\<close>

definition zeros :: "nat list \<Rightarrow> tensor" where
  "zeros sh = \<lparr>shape = sh, elem = (\<lambda>idx. 0)\<rparr>"

definition const_PatchEmbedding_params :: "real \<Rightarrow> PatchEmbedding_params" where
  "const_PatchEmbedding_params v =
     \<lparr>conv_w = (\<lambda>idx. v), conv_b = (\<lambda>idx. v), cls_w = (\<lambda>idx. v), pos_w = (\<lambda>idx. v)\<rparr>"

definition const_MultiHeadAttention_params :: "real \<Rightarrow> MultiHeadAttention_params" where
  "const_MultiHeadAttention_params v =
     \<lparr>qkv_w = (\<lambda>idx. v), qkv_b = (\<lambda>idx. v), proj_w = (\<lambda>idx. v), proj_b = (\<lambda>idx. v)\<rparr>"

definition const_ViT_params :: "real \<Rightarrow> ViT_params" where
  "const_ViT_params v =
     \<lparr>patch_embedding_params = const_PatchEmbedding_params v,
      encoder_params = (\<lambda>i.
        \<lparr>norm1_w = (\<lambda>idx. v), norm1_b = (\<lambda>idx. v),
         attention_params = const_MultiHeadAttention_params v,
         norm2_w = (\<lambda>idx. v), norm2_b = (\<lambda>idx. v),
         feed_forward_params =
           \<lparr>ff1_w = (\<lambda>idx. v), ff1_b = (\<lambda>idx. v), ff2_w = (\<lambda>idx. v), ff2_b = (\<lambda>idx. v)\<rparr>\<rparr>),
      head_params =
        \<lparr>head_norm_w = (\<lambda>idx. v), head_norm_b = (\<lambda>idx. v),
         head_w = (\<lambda>idx. v), head_b = (\<lambda>idx. v)\<rparr>\<rparr>"

text \<open>
  Softmax of a row \<open>a 0, \<dots>, a (n - 1)\<close> of scores, the mean of the embeddings over the
  \<open>n\<close> token positions, and layer normalization of a vector of length \<open>e\<close>: what the
  specification says of the attention weights and of the classification head.
\<close>

definition softmax_row :: "(nat \<Rightarrow> real) \<Rightarrow> nat \<Rightarrow> nat \<Rightarrow> real" where
  "softmax_row a n k = exp (a k) / (\<Sum>l<n. exp (a l))"

definition mean_over_tokens :: "tensor \<Rightarrow> nat \<Rightarrow> nat \<Rightarrow> nat \<Rightarrow> real" where
  "mean_over_tokens x n i k = (\<Sum>t<n. elem x [i, t, k]) / real n"

definition normalized :: "nat \<Rightarrow> (nat list \<Rightarrow> real) \<Rightarrow> (nat list \<Rightarrow> real) \<Rightarrow> (nat \<Rightarrow> real) \<Rightarrow> nat \<Rightarrow> real" where
  "normalized e g bt v k =
     (let mu = (\<Sum>l<e. v l) / real e;
          var = (\<Sum>l<e. (v l - mu) ^ 2) / real e
      in (v k - mu) / sqrt (var + ln_eps) * g [k] + bt [k])"



text \<open>
  The attention layer in the specification's terms. The combined query/key/value
  projection of token \<open>q\<close> of item \<open>i\<close>; the raw score of head \<open>j\<close> for query \<open>q\<close> and key
  \<open>k\<close>, the dot product over the head's \<open>e div h\<close> components, with no scaling; the value
  vector of key \<open>k\<close>.
\<close>

definition qkv_projection ::
  "MultiHeadAttention_params \<Rightarrow> nat \<Rightarrow> tensor \<Rightarrow> nat \<Rightarrow> nat \<Rightarrow> nat \<Rightarrow> real" where
  "qkv_projection \<theta> e x i q c = qkv_b \<theta> [c] + (\<Sum>l<e. elem x [i, q, l] * qkv_w \<theta> [c, l])"

definition raw_score ::
  "MultiHeadAttention_params \<Rightarrow> nat \<Rightarrow> nat \<Rightarrow> tensor \<Rightarrow> nat \<Rightarrow> nat \<Rightarrow> nat \<Rightarrow> nat \<Rightarrow> real" where
  "raw_score \<theta> e h x i j q k =
     (\<Sum>u<e div h. qkv_projection \<theta> e x i q ((j * (e div h) + u) * 3) *
                     qkv_projection \<theta> e x i k ((j * (e div h) + u) * 3 + 1))"

definition value_component ::
  "MultiHeadAttention_params \<Rightarrow> nat \<Rightarrow> nat \<Rightarrow> tensor \<Rightarrow> nat \<Rightarrow> nat \<Rightarrow> nat \<Rightarrow> nat \<Rightarrow> real" where
  "value_component \<theta> e h x i j k u = qkv_projection \<theta> e x i k ((j * (e div h) + u) * 3 + 2)"

text \<open>
  Constructing an attention layer and computing its attention weights; the sum of one
  row of the weights.
\<close>

definition MHA_attention_result ::
  "MultiHeadAttention_params \<Rightarrow> nat \<Rightarrow> nat \<Rightarrow> real \<Rightarrow> bool \<Rightarrow> (nat list \<Rightarrow> bool) \<Rightarrow> tensor
     \<Rightarrow> tensor option \<Rightarrow> error + (tensor \<times> tensor)" where
  "MHA_attention_result \<theta> e h p training keep x msk =
     bind_err (MultiHeadAttention_init e h p \<theta>) (\<lambda>m. MHA_attention m training keep x msk)"

definition att_row_sum :: "error + (tensor \<times> tensor) \<Rightarrow> nat \<Rightarrow> nat list \<Rightarrow> error + real" where
  "att_row_sum r n row =
     (case r of Inl e \<Rightarrow> Inl e | Inr (att, vals) \<Rightarrow> Inr (\<Sum>k<n. elem att (row @ [k])))"

section \<open>Basic facts\<close>

lemma bind_err_Inr [simp]: "bind_err (Inr v) f = f v"
  by (simp add: bind_err_def)

lemma bind_err_Inl [simp]: "bind_err (Inl e) f = Inl e"
  by (simp add: bind_err_def)

section \<open>Broadcasting and the residual wrapper\<close>

lemma broadcastable_to_refl: "broadcastable_to sh sh"
  by (simp add: broadcastable_to_def list_all2_same)


lemma iadd_same_shape:
  "shape r = shape x \<Longrightarrow>
   iadd x r = Inr \<lparr>shape = shape x,
                   elem = (\<lambda>idx. elem x idx + elem r (broadcast_index (shape x) idx))\<rparr>"
  by (simp add: iadd_def broadcastable_to_refl)





section \<open>The patch tokenizer\<close>


lemma conv_extent: "0 < p \<Longrightarrow> p \<le> h \<Longrightarrow> (h - p) div p + 1 = h div (p::nat)"
  by (simp add: le_div_geq)

lemma conv_extents:
  "0 < p \<Longrightarrow> p \<le> h \<Longrightarrow> p \<le> w \<Longrightarrow>
   (h - p) div p + 1 = h div (p::nat) \<and> (w - p) div p + 1 = w div p"
  by (simp add: le_div_geq)

lemma PatchEmbedding_forward_explicit:
  assumes "0 < p" "shape x = [b, c, h, w]" "p \<le> h" "p \<le> w"
    and "(h - p) div p + 1 = gh" "(w - p) div p + 1 = gw"
    and "(s div p) ^ 2 + 1 = np" "np = gh * gw + 1 \<or> np = 1"
  shows "PatchEmbedding_result \<theta> c p e s x =
     Inr \<lparr>shape = [b, gh * gw + 1, e],
          elem = (\<lambda>idx. (case idx of
               [n, t, k] \<Rightarrow> if t < 1 then cls_w \<theta> [0, t, k]
                  else tile_embedding \<theta> c p x n ((t - 1) div gw) ((t - 1) mod gw) k
             | _ \<Rightarrow> 0) + pos_w \<theta> (broadcast_index [np, e] idx))\<rparr>"
proof -
  have "PatchEmbedding_result \<theta> c p e s x =
     Inr \<lparr>shape = [b, 1 + gh * gw, e],
          elem = (\<lambda>idx. (case idx of
               [n, t, k] \<Rightarrow> if t < 1 then cls_w \<theta> [0, t, k]
                  else tile_embedding \<theta> c p x n ((t - 1) div gw) ((t - 1) mod gw) k
             | _ \<Rightarrow> 0) + pos_w \<theta> (broadcast_index [np, e] idx))\<rparr>"
    using assms
    unfolding PatchEmbedding_result_def PatchEmbedding_init_def PatchEmbedding_forward_def
     Conv2d_forward_def Rearrange_patches_def repeat_batch_def cat_dim1_def iadd_def
     broadcastable_to_def tile_embedding_def
    by (auto simp del: One_nat_def split: list.splits)
  then show ?thesis by (simp add: add.commute)
qed

lemma PatchEmbedding_forward_result:
  "PatchEmbedding_init c p e s \<theta> = Inr pe \<Longrightarrow>
   PatchEmbedding_forward pe x = PatchEmbedding_result \<theta> c p e s x"
  by (simp add: PatchEmbedding_result_def)

lemma PatchEmbedding_result_error:
  assumes "0 < p" "shape x = [b, ch, h, w]"
    and "ch \<noteq> c \<or> h < p \<or> w < p \<or>
         ((s div p) ^ 2 \<noteq> (h div p) * (w div p) \<and> s div p \<noteq> 0)"
  shows "PatchEmbedding_result \<theta> c p e s x = Inl RuntimeError"
proof (cases "ch \<noteq> c \<or> h < p \<or> w < p")
  case True
  then show ?thesis
    using assms(1,2)
    unfolding PatchEmbedding_result_def PatchEmbedding_init_def PatchEmbedding_forward_def
      Conv2d_forward_def
    by auto
next
  case False
  then have ok: "ch = c" "p \<le> h" "p \<le> w" by auto
  with assms(3) have ne: "(s div p) ^ 2 \<noteq> (h div p) * (w div p)" "s div p \<noteq> 0" by auto
  have gh: "(h - p) div p + 1 = h div p" and gw: "(w - p) div p + 1 = w div p"
    using conv_extents[OF assms(1) ok(2,3)] by blast+
  have "\<not> broadcastable_to [(s div p) ^ 2 + 1, e] [b, 1 + (h div p) * (w div p), e]"
    using ne by (simp add: broadcastable_to_def)
  then show ?thesis
    using assms(1,2) ok gh gw
    unfolding PatchEmbedding_result_def PatchEmbedding_init_def PatchEmbedding_forward_def
      Conv2d_forward_def Rearrange_patches_def repeat_batch_def cat_dim1_def iadd_def
    by (simp del: One_nat_def)
qed

lemma PatchEmbedding_result_ok:
  assumes "0 < p" "shape x = [b, c, h, w]" "p \<le> h" "p \<le> w"
    and "(s div p) ^ 2 = (h div p) * (w div p) \<or> s div p = 0"
  shows "\<exists>y. PatchEmbedding_result \<theta> c p e s x = Inr y \<and>
             shape y = [b, (h div p) * (w div p) + 1, e]"
proof -
  have gh: "(h - p) div p + 1 = h div p" and gw: "(w - p) div p + 1 = w div p"
    using conv_extents[OF assms(1,3,4)] by blast+
  have "(s div p) ^ 2 + 1 = (h div p) * (w div p) + 1 \<or> (s div p) ^ 2 + 1 = 1"
    using assms(5) by auto
  from PatchEmbedding_forward_explicit[OF assms(1-4) gh gw refl this]
  show ?thesis by simp
qed

lemma PatchEmbedding_token0:
  assumes "PatchEmbedding_result \<theta> c p e s x = Inr y" "k < e"
  shows "elem y [n, 0, k] = cls_w \<theta> [0, 0, k] + pos_w \<theta> [0, k]"
proof -
  from assms(1) have p: "0 < p"
    by (auto simp: PatchEmbedding_result_def PatchEmbedding_init_def split: if_splits)
  from assms(1) obtain b ch h w where sh: "shape x = [b, ch, h, w]"
    using p
    by (auto simp: PatchEmbedding_result_def PatchEmbedding_init_def PatchEmbedding_forward_def
        split: list.splits)
  have "\<not> (ch \<noteq> c \<or> h < p \<or> w < p \<or>
         ((s div p) ^ 2 \<noteq> (h div p) * (w div p) \<and> s div p \<noteq> 0))"
  proof
    assume "ch \<noteq> c \<or> h < p \<or> w < p \<or>
         ((s div p) ^ 2 \<noteq> (h div p) * (w div p) \<and> s div p \<noteq> 0)"
    from PatchEmbedding_result_error[OF p sh this, of \<theta> e] assms(1)
    show False by simp
  qed
  then have c: "ch = c" and ok: "p \<le> h" "p \<le> w"
    "(s div p) ^ 2 = (h div p) * (w div p) \<or> s div p = 0"
    by auto
  have gh: "(h - p) div p + 1 = h div p" and gw: "(w - p) div p + 1 = w div p"
    using conv_extents[OF p ok(1,2)] by blast+
  have np: "(s div p) ^ 2 + 1 = (h div p) * (w div p) + 1 \<or> (s div p) ^ 2 + 1 = 1"
    using ok(3) by auto
  have "y = \<lparr>shape = [b, (h div p) * (w div p) + 1, e],
          elem = (\<lambda>idx. (case idx of
               [n, t, k] \<Rightarrow> if t < 1 then cls_w \<theta> [0, t, k]
                  else tile_embedding \<theta> c p x n ((t - 1) div (w div p)) ((t - 1) mod (w div p)) k
             | _ \<Rightarrow> 0) + pos_w \<theta> (broadcast_index [(s div p) ^ 2 + 1, e] idx))\<rparr>"
    using PatchEmbedding_forward_explicit[OF p sh[unfolded c] ok(1,2) gh gw refl np, of \<theta> e]
      assms(1) by simp
  then show ?thesis
    using assms(2) by (auto simp: broadcast_index_def)
qed

lemma PatchEmbedding_tokens:
  assumes "0 < p" "shape x = [b, c, h, w]" "p \<le> h" "p \<le> w"
    and "(s div p) ^ 2 = (h div p) * (w div p)"
    and "PatchEmbedding_result \<theta> c p e s x = Inr y"
    and "i < h div p" "j < w div p" "k < e"
  shows "elem y [n, 1 + (i * (w div p) + j), k] =
         tile_embedding \<theta> c p x n i j k + pos_w \<theta> [1 + (i * (w div p) + j), k]"
proof -
  have gh: "(h - p) div p + 1 = h div p" and gw: "(w - p) div p + 1 = w div p"
    using conv_extents[OF assms(1,3,4)] by blast+
  have np: "(s div p) ^ 2 + 1 = (h div p) * (w div p) + 1 \<or> (s div p) ^ 2 + 1 = 1"
    using assms(5) by auto
  have y: "y = \<lparr>shape = [b, (h div p) * (w div p) + 1, e],
          elem = (\<lambda>idx. (case idx of
               [n, t, k] \<Rightarrow> if t < 1 then cls_w \<theta> [0, t, k]
                  else tile_embedding \<theta> c p x n ((t - 1) div (w div p)) ((t - 1) mod (w div p)) k
             | _ \<Rightarrow> 0) + pos_w \<theta> (broadcast_index [(s div p) ^ 2 + 1, e] idx))\<rparr>"
    using PatchEmbedding_forward_explicit[OF assms(1-4) gh gw refl np, of \<theta> e] assms(6) by simp
  have "(s div p) ^ 2 + 1 \<noteq> 1"
    using assms(5,7,8) by auto
  then have "broadcast_index [(s div p) ^ 2 + 1, e] [n, 1 + (i * (w div p) + j), k]
      = [1 + (i * (w div p) + j), k]"
    using assms(9) by (auto simp: broadcast_index_def)
  then show ?thesis
    using assms(8) by (simp add: y del: One_nat_def)
qed

text \<open>
  C6. With \<open>img_size = 224\<close> and \<open>patch_size = 16\<close> (and non-zero channel count \<open>c\<close>
  and embedding size \<open>e\<close>), a batch of shape \<open>(b, c, 224, 224)\<close>
  is turned into \<open>197 = 14 * 14 + 1\<close> tokens. Token 0 is the classification token (with
  positional vector 0 added); token \<open>1 + (14 i + j)\<close> is the embedding of the tile in grid
  row \<open>i\<close> and column \<open>j\<close> (with its positional vector added): row-major order.
\<close>

theorem PatchEmbedding_224_16_tokens:
  "0 < c \<and> 0 < e \<and> shape x = [b, c, 224, 224] \<longrightarrow>
   (\<exists>y. PatchEmbedding_result \<theta> c 16 e 224 x = Inr y \<and> shape y = [b, 197, e] \<and>
      (\<forall>n k. k < e \<longrightarrow> elem y [n, 0, k] = cls_w \<theta> [0, 0, k] + pos_w \<theta> [0, k]) \<and>
      (\<forall>n i j k. i < 14 \<and> j < 14 \<and> k < e \<longrightarrow>
         elem y [n, 1 + (i * 14 + j), k] =
         tile_embedding \<theta> c 16 x n i j k + pos_w \<theta> [1 + (i * 14 + j), k]))"
proof
  assume "0 < c \<and> 0 < e \<and> shape x = [b, c, 224, 224]"
  then have sh: "shape x = [b, c, 224, 224]" by simp
  have d: "(224::nat) div 16 = 14" by simp
  from PatchEmbedding_result_ok[of 16 x b c 224 224 224 \<theta> e] sh
  obtain y where y: "PatchEmbedding_result \<theta> c 16 e 224 x = Inr y" "shape y = [b, 197, e]"
    by auto
  have t0: "\<forall>n k. k < e \<longrightarrow> elem y [n, 0, k] = cls_w \<theta> [0, 0, k] + pos_w \<theta> [0, k]"
    using PatchEmbedding_token0[OF y(1)] by blast
  have tk: "\<forall>n i j k. i < 14 \<and> j < 14 \<and> k < e \<longrightarrow>
         elem y [n, 1 + (i * 14 + j), k] =
         tile_embedding \<theta> c 16 x n i j k + pos_w \<theta> [1 + (i * 14 + j), k]"
    using PatchEmbedding_tokens[of 16 x b c 224 224 224 \<theta> e y] sh y(1) by (simp add: d)
  show "\<exists>y. PatchEmbedding_result \<theta> c 16 e 224 x = Inr y \<and> shape y = [b, 197, e] \<and>
      (\<forall>n k. k < e \<longrightarrow> elem y [n, 0, k] = cls_w \<theta> [0, 0, k] + pos_w \<theta> [0, k]) \<and>
      (\<forall>n i j k. i < 14 \<and> j < 14 \<and> k < e \<longrightarrow>
         elem y [n, 1 + (i * 14 + j), k] =
         tile_embedding \<theta> c 16 x n i j k + pos_w \<theta> [1 + (i * 14 + j), k])"
    using y t0 tk by blast
qed

theorem PatchEmbedding_224_16_tokens_witness:
  "\<exists>y. PatchEmbedding_result (const_PatchEmbedding_params 1) 3 16 768 224 (zeros [2, 3, 224, 224]) = Inr y \<and>
     shape y = [2, 197, 768] \<and> elem y [1, 0, 5] = 2 \<and> elem y [1, 196, 767] = 2"
proof -
  have sh: "(0::nat) < 3 \<and> (0::nat) < 768 \<and> shape (zeros [2, 3, 224, 224]) = [2, 3, 224, 224]"
    by (simp add: zeros_def)
  from PatchEmbedding_224_16_tokens
      [where x = "zeros [2, 3, 224, 224]" and b = 2 and c = 3
         and \<theta> = "const_PatchEmbedding_params 1" and e = 768] sh
  obtain y where y:
    "PatchEmbedding_result (const_PatchEmbedding_params 1) 3 16 768 224 (zeros [2, 3, 224, 224]) = Inr y"
    "shape y = [2, 197, 768]"
    and t0: "\<And>n k. k < 768 \<Longrightarrow> elem y [n, 0, k] =
       cls_w (const_PatchEmbedding_params 1) [0, 0, k] + pos_w (const_PatchEmbedding_params 1) [0, k]"
    and tk: "\<And>n i j k. i < 14 \<and> j < 14 \<and> k < 768 \<Longrightarrow> elem y [n, 1 + (i * 14 + j), k] =
       tile_embedding (const_PatchEmbedding_params 1) 3 16 (zeros [2, 3, 224, 224]) n i j k +
       pos_w (const_PatchEmbedding_params 1) [1 + (i * 14 + j), k]"
    by blast
  have "elem y [1, 0, 5] = 2"
    using t0[of 5 1] by (simp add: const_PatchEmbedding_params_def)
  moreover have "elem y [1, 196, 767] = 2"
    using tk[of 13 13 767 1]
    by (simp add: const_PatchEmbedding_params_def tile_embedding_def zeros_def)
  ultimately show ?thesis using y by blast
qed

text \<open>
  C9. For two image batches of the tokenizer's size and the same batch size, the token
  at position 0 is the classification token plus positional vector 0, in both runs and
  for every item of the batch: it does not depend on the images.
\<close>

theorem cls_position_independent_of_image:
  "0 < c \<and> 0 < e \<and> 0 < p \<and> p \<le> s \<and> shape x = [b, c, s, s] \<and> shape x' = [b, c, s, s] \<longrightarrow>
   (\<exists>y y'. PatchEmbedding_result \<theta> c p e s x = Inr y \<and>
            PatchEmbedding_result \<theta> c p e s x' = Inr y' \<and>
            (\<forall>n n' k. k < e \<longrightarrow>
               elem y [n, 0, k] = cls_w \<theta> [0, 0, k] + pos_w \<theta> [0, k] \<and>
               elem y' [n', 0, k] = elem y [n, 0, k]))"
proof
  assume a: "0 < c \<and> 0 < e \<and> 0 < p \<and> p \<le> s \<and> shape x = [b, c, s, s] \<and> shape x' = [b, c, s, s]"
  have sq: "(s div p) ^ 2 = (s div p) * (s div p) \<or> s div p = 0"
    by (simp add: power2_eq_square)
  obtain y where y: "PatchEmbedding_result \<theta> c p e s x = Inr y"
    using PatchEmbedding_result_ok[of p x b c s s s \<theta> e] a sq by blast
  obtain y' where y': "PatchEmbedding_result \<theta> c p e s x' = Inr y'"
    using PatchEmbedding_result_ok[of p x' b c s s s \<theta> e] a sq by blast
  have "\<forall>n n' k. k < e \<longrightarrow>
               elem y [n, 0, k] = cls_w \<theta> [0, 0, k] + pos_w \<theta> [0, k] \<and>
               elem y' [n', 0, k] = elem y [n, 0, k]"
    using PatchEmbedding_token0[OF y] PatchEmbedding_token0[OF y'] by simp
  then show "\<exists>y y'. PatchEmbedding_result \<theta> c p e s x = Inr y \<and>
            PatchEmbedding_result \<theta> c p e s x' = Inr y' \<and>
            (\<forall>n n' k. k < e \<longrightarrow>
               elem y [n, 0, k] = cls_w \<theta> [0, 0, k] + pos_w \<theta> [0, k] \<and>
               elem y' [n', 0, k] = elem y [n, 0, k])"
    using y y' by blast
qed

theorem cls_position_independent_of_image_witness:
  "\<exists>y y'. PatchEmbedding_result (const_PatchEmbedding_params 1) 3 16 768 224
             (zeros [2, 3, 224, 224]) = Inr y \<and>
          PatchEmbedding_result (const_PatchEmbedding_params 1) 3 16 768 224
             \<lparr>shape = [2, 3, 224, 224], elem = (\<lambda>idx. 7)\<rparr> = Inr y' \<and>
          elem y [0, 0, 5] = 2 \<and> elem y' [1, 0, 5] = 2"
proof -
  from cls_position_independent_of_image
      [where p = 16 and s = 224 and x = "zeros [2, 3, 224, 224]" and b = 2 and c = 3
         and x' = "\<lparr>shape = [2, 3, 224, 224], elem = (\<lambda>idx. 7)\<rparr>"
         and \<theta> = "const_PatchEmbedding_params 1" and e = 768]
  obtain y y' where y:
    "PatchEmbedding_result (const_PatchEmbedding_params 1) 3 16 768 224
             (zeros [2, 3, 224, 224]) = Inr y"
    "PatchEmbedding_result (const_PatchEmbedding_params 1) 3 16 768 224
             \<lparr>shape = [2, 3, 224, 224], elem = (\<lambda>idx. 7)\<rparr> = Inr y'"
    and t0: "\<And>n n' k. k < 768 \<Longrightarrow>
       elem y [n, 0, k] = cls_w (const_PatchEmbedding_params 1) [0, 0, k] +
                          pos_w (const_PatchEmbedding_params 1) [0, k] \<and>
       elem y' [n', 0, k] = elem y [n, 0, k]"
    by (auto simp: zeros_def)
  have "elem y [0, 0, 5] = 2" "elem y' [1, 0, 5] = 2"
    using t0[of 5 0 1] by (simp_all add: const_PatchEmbedding_params_def)
  then show ?thesis using y by blast
qed

text \<open>
  C3, as stated, is false: by it the forward pass fails whenever the height or the width
  is not a multiple of \<open>patch_size\<close>, in particular for \<open>img_size = 225\<close> and
  \<open>patch_size = 16\<close>. That model runs on a \<open>225 \<times> 225\<close> image and returns 197 tokens.
\<close>

theorem PatchEmbedding_225_16_no_error:
  "result_shape (PatchEmbedding_result (const_PatchEmbedding_params 0) 3 16 768 225
       (zeros [1, 3, 225, 225])) = Inr [1, 197, 768]"
proof -
  have "shape (zeros [1, 3, 225, 225]) = [1, 3, 225, 225]"
    by (simp add: zeros_def)
  from PatchEmbedding_result_ok
    [of 16 "zeros [1, 3, 225, 225]" 1 3 225 225 225 "const_PatchEmbedding_params 0" 768] this
  obtain y where
    "PatchEmbedding_result (const_PatchEmbedding_params 0) 3 16 768 225
       (zeros [1, 3, 225, 225]) = Inr y" "shape y = [1, 197, 768]"
    by auto
  then show ?thesis by (simp add: result_shape_def)
qed

text \<open>
  C3, amended. On a rank-4 batch \<open>(b, ch, h, w)\<close> the forward pass of the tokenizer built
  for \<open>c\<close> channels, patch size \<open>p\<close> and image size \<open>s\<close> (\<open>c\<close>, \<open>p\<close> and the embedding
  size not zero) fails, with torch's RuntimeError,
  exactly when \<open>ch\<close> differs from \<open>c\<close>, or \<open>h\<close> or \<open>w\<close> is smaller than \<open>p\<close>, or the number
  of whole tiles \<open>(h div p) * (w div p)\<close> differs from \<open>(s div p)\<^sup>2\<close> (and \<open>s div p\<close> is not 0,
  where the one-row positional table broadcasts). Otherwise it returns
  \<open>(h div p) * (w div p) + 1\<close> tokens: a height or width that is not a multiple of \<open>p\<close>
  is not an error by itself.
\<close>

theorem PatchEmbedding_forward_fails_iff:
  "0 < c \<and> 0 < e \<and> 0 < p \<and> shape x = [b, ch, h, w] \<longrightarrow>
   (if ch \<noteq> c \<or> h < p \<or> w < p \<or>
       ((s div p) ^ 2 \<noteq> (h div p) * (w div p) \<and> s div p \<noteq> 0)
    then PatchEmbedding_result \<theta> c p e s x = Inl RuntimeError
    else result_shape (PatchEmbedding_result \<theta> c p e s x) = Inr [b, (h div p) * (w div p) + 1, e])"
proof
  assume a: "0 < c \<and> 0 < e \<and> 0 < p \<and> shape x = [b, ch, h, w]"
  show "if ch \<noteq> c \<or> h < p \<or> w < p \<or>
       ((s div p) ^ 2 \<noteq> (h div p) * (w div p) \<and> s div p \<noteq> 0)
    then PatchEmbedding_result \<theta> c p e s x = Inl RuntimeError
    else result_shape (PatchEmbedding_result \<theta> c p e s x) = Inr [b, (h div p) * (w div p) + 1, e]"
  proof (cases "ch \<noteq> c \<or> h < p \<or> w < p \<or>
       ((s div p) ^ 2 \<noteq> (h div p) * (w div p) \<and> s div p \<noteq> 0)")
    case True
    with PatchEmbedding_result_error[of p x b ch h w c s \<theta> e] a show ?thesis by simp
  next
    case False
    then have "ch = c" "p \<le> h" "p \<le> w"
      "(s div p) ^ 2 = (h div p) * (w div p) \<or> s div p = 0" by auto
    with PatchEmbedding_result_ok[of p x b c h w s \<theta> e] a False
    show ?thesis by (auto simp: result_shape_def)
  qed
qed

theorem PatchEmbedding_forward_fails_iff_witness:
  "PatchEmbedding_result (const_PatchEmbedding_params 0) 3 16 768 224 (zeros [1, 4, 224, 224])
     = Inl RuntimeError \<and>
   PatchEmbedding_result (const_PatchEmbedding_params 0) 3 16 768 224 (zeros [1, 3, 240, 224])
     = Inl RuntimeError \<and>
   result_shape (PatchEmbedding_result (const_PatchEmbedding_params 0) 3 16 768 224
     (zeros [1, 3, 230, 239])) = Inr [1, 197, 768]"
  using PatchEmbedding_forward_fails_iff
      [where p = 16 and x = "zeros [1, 4, 224, 224]" and b = 1 and ch = 4 and h = 224
         and w = 224 and c = 3 and s = 224 and \<theta> = "const_PatchEmbedding_params 0" and e = 768]
    PatchEmbedding_forward_fails_iff
      [where p = 16 and x = "zeros [1, 3, 240, 224]" and b = 1 and ch = 3 and h = 240
         and w = 224 and c = 3 and s = 224 and \<theta> = "const_PatchEmbedding_params 0" and e = 768]
    PatchEmbedding_forward_fails_iff
      [where p = 16 and x = "zeros [1, 3, 230, 239]" and b = 1 and ch = 3 and h = 230
         and w = 239 and c = 3 and s = 224 and \<theta> = "const_PatchEmbedding_params 0" and e = 768]
  by (simp add: zeros_def)

section \<open>Shapes through the layers\<close>


lemma shape_Dropout_forward [simp]: "shape (Dropout_forward d tr keep x) = shape x"
  by (simp add: Dropout_forward_def)

lemma shape_GELU_forward [simp]: "shape (GELU_forward x) = shape x"
  by (simp add: GELU_forward_def)

lemma shape_softmax_last [simp]: "shape (softmax_last x) = shape x"
  by (simp add: softmax_last_def)

lemma shape_div_scalar [simp]: "shape (div_scalar x c) = shape x"
  by (simp add: div_scalar_def)

lemma Linear_forward_shape:
  "shape x = sh @ [lin_in l] \<Longrightarrow>
   \<exists>y. Linear_forward l x = Inr y \<and> shape y = sh @ [lin_out l]"
  by (simp add: Linear_forward_def)

lemma LayerNorm_forward_shape:
  "shape x = sh @ [ln_dim l] \<Longrightarrow> \<exists>y. LayerNorm_forward l x = Inr y \<and> shape y = shape x"
  by (simp add: LayerNorm_forward_def)

lemma Dropout_init_ok:
  "0 \<le> p \<Longrightarrow> p \<le> 1 \<Longrightarrow> Dropout_init p = Inr \<lparr>drop_prob = p\<rparr>"
  by (simp add: Dropout_init_def)

lemma heads_arith:
  assumes "0 < h" "h dvd e"
  shows "(e * 3) mod (h * 3) = 0" "(e * 3) div (h * 3) = e div h" "h * (e div h) = (e::nat)"
  using assms by auto

lemma MHA_energy_shape:
  assumes "MultiHeadAttention_init e h p \<theta> = Inr m" "0 < h" "h dvd e" "shape x = [b, n, e]"
  shows "\<exists>energy values. MHA_energy m x = Inr (energy, values) \<and>
           shape energy = [b, h, n, n] \<and> shape values = [b, h, n, e div h]"
proof -
  from assms(1) have m: "mha_qkv m = \<lparr>lin_in = e, lin_out = e * 3, lin_weight = qkv_w \<theta>, lin_bias = qkv_b \<theta>\<rparr>"
    "mha_num_heads m = h"
    by (auto simp: MultiHeadAttention_init_def Dropout_init_def split: if_splits)
  have "shape x = [b, n] @ [lin_in (mha_qkv m)]" using assms(4) m by simp
  from Linear_forward_shape[OF this] obtain y where
    y: "Linear_forward (mha_qkv m) x = Inr y" "shape y = [b, n, e * 3]"
    using m by auto
  show ?thesis
    using y m heads_arith[OF assms(2,3)] assms(2)
    by (simp add: MHA_energy_def rearrange_qkv_def select0_def einsum_qk_def Let_def)
qed

lemma MHA_forward_shape:
  assumes "MultiHeadAttention_init e h p \<theta> = Inr m" "0 < h" "h dvd e" "shape x = [b, n, e]"
  shows "\<exists>y. MultiHeadAttention_forward m tr keep x None = Inr y \<and> shape y = [b, n, e]"
proof -
  from MHA_energy_shape[OF assms] obtain energy vals where
    ev: "MHA_energy m x = Inr (energy, vals)"
      "shape energy = [b, h, n, n]" "shape vals = [b, h, n, e div h]"
    by blast
  from assms(1) have m: "mha_projection m = \<lparr>lin_in = e, lin_out = e, lin_weight = proj_w \<theta>, lin_bias = proj_b \<theta>\<rparr>"
    by (auto simp: MultiHeadAttention_init_def Dropout_init_def split: if_splits)
  obtain att where att: "MHA_attention m tr keep x None = Inr (att, vals)"
     "shape att = [b, h, n, n]"
    using ev by (simp add: MHA_attention_def mask_branch_def Let_def)
  obtain out where out: "einsum_av att vals = Inr out" "shape out = [b, h, n, e div h]"
    using att(2) ev(3) by (simp add: einsum_av_def)
  obtain out2 where out2: "rearrange_heads out = Inr out2" "shape out2 = [b, n, e]"
    using out(2) heads_arith(3)[OF assms(2,3)] by (simp add: rearrange_heads_def)
  have "shape out2 = [b, n] @ [lin_in (mha_projection m)]" using out2 m by simp
  from Linear_forward_shape[OF this] obtain y where
    "Linear_forward (mha_projection m) out2 = Inr y" "shape y = [b, n, e]"
    using m by auto
  then show ?thesis
    using att out out2 by (simp add: MultiHeadAttention_forward_def)
qed

lemma call_ResidualAdd_functional:
  "f v = Inr y \<Longrightarrow> call (ResidualAdd_forward (functional f)) v = iadd y v"
  by (cases "iadd y v") (simp_all add: call_def ResidualAdd_forward_def functional_def)

lemma call_ResidualAdd_functional_error:
  "f v = Inl err \<Longrightarrow> call (ResidualAdd_forward (functional f)) v = Inl err"
  by (simp add: call_def ResidualAdd_forward_def functional_def)

lemma residual_shape:
  assumes "f v = Inr y" "shape y = shape v"
  shows "\<exists>t. call (ResidualAdd_forward (functional f)) v = Inr t \<and> shape t = shape v"
  using assms by (simp add: call_ResidualAdd_functional iadd_same_shape)

lemma FeedForwardBlock_forward_shape:
  assumes "FeedForwardBlock_init e k p \<theta> = Inr ff" "shape x = [b, n, e]"
  shows "\<exists>y. FeedForwardBlock_forward ff tr keep x = Inr y \<and> shape y = [b, n, e]"
proof -
  from assms(1) have ff:
    "ff_lin1 ff = \<lparr>lin_in = e, lin_out = k * e, lin_weight = ff1_w \<theta>, lin_bias = ff1_b \<theta>\<rparr>"
    "ff_lin2 ff = \<lparr>lin_in = k * e, lin_out = e, lin_weight = ff2_w \<theta>, lin_bias = ff2_b \<theta>\<rparr>"
    by (auto simp: FeedForwardBlock_init_def Dropout_init_def split: if_splits)
  have "shape x = [b, n] @ [lin_in (ff_lin1 ff)]" using assms(2) ff by simp
  from Linear_forward_shape[OF this] obtain y where
    y: "Linear_forward (ff_lin1 ff) x = Inr y" "shape y = [b, n, k * e]"
    using ff by auto
  have "shape (Dropout_forward (ff_drop ff) tr keep (GELU_forward y)) = [b, n] @ [lin_in (ff_lin2 ff)]"
    using y ff by simp
  from Linear_forward_shape[OF this] obtain z where
    "Linear_forward (ff_lin2 ff) (Dropout_forward (ff_drop ff) tr keep (GELU_forward y)) = Inr z"
    "shape z = [b, n, e]"
    using ff by auto
  then show ?thesis using y by (simp add: FeedForwardBlock_forward_def)
qed

lemma TransformerEncoderBlock_init_parts:
  assumes "TransformerEncoderBlock_init e p k fp h ap \<theta> = Inr blk"
  shows "ln_dim (norm1 blk) = e" "ln_dim (norm2 blk) = e"
    "MultiHeadAttention_init e h ap (attention_params \<theta>) = Inr (attention blk)"
    "FeedForwardBlock_init e k fp (feed_forward_params \<theta>) = Inr (feed_forward blk)"
  using assms
  by (auto simp: TransformerEncoderBlock_init_def bind_err_def split: sum.splits)

lemma attention_stage_shape:
  assumes "TransformerEncoderBlock_init e p k fp h ap \<theta> = Inr blk"
    "0 < h" "h dvd e" "shape x = [b, n, e]"
  shows "\<exists>y. attention_stage blk tr noise x = Inr y \<and> shape y = shape x"
proof -
  note parts = TransformerEncoderBlock_init_parts[OF assms(1)]
  have "shape x = [b, n] @ [ln_dim (norm1 blk)]" using assms(4) parts(1) by simp
  from LayerNorm_forward_shape[OF this] obtain y where
    y: "LayerNorm_forward (norm1 blk) x = Inr y" "shape y = [b, n, e]"
    using assms(4) by auto
  from MHA_forward_shape[OF parts(3) assms(2,3) y(2), of tr "noise 0"] obtain z where
    "MultiHeadAttention_forward (attention blk) tr (noise 0) y None = Inr z" "shape z = [b, n, e]"
    by blast
  then show ?thesis using y assms(4) by (simp add: attention_stage_def)
qed

lemma feed_forward_stage_shape:
  assumes "TransformerEncoderBlock_init e p k fp h ap \<theta> = Inr blk" "shape x = [b, n, e]"
  shows "\<exists>y. feed_forward_stage blk tr noise x = Inr y \<and> shape y = shape x"
proof -
  note parts = TransformerEncoderBlock_init_parts[OF assms(1)]
  have "shape x = [b, n] @ [ln_dim (norm2 blk)]" using assms(2) parts(2) by simp
  from LayerNorm_forward_shape[OF this] obtain y where
    y: "LayerNorm_forward (norm2 blk) x = Inr y" "shape y = [b, n, e]"
    using assms(2) by auto
  from FeedForwardBlock_forward_shape[OF parts(4) y(2), of tr "noise 2"] obtain z where
    "FeedForwardBlock_forward (feed_forward blk) tr (noise 2) y = Inr z" "shape z = [b, n, e]"
    by blast
  then show ?thesis using y assms(2) by (simp add: feed_forward_stage_def)
qed

lemma TransformerEncoderBlock_forward_shape:
  assumes "TransformerEncoderBlock_init e p k fp h ap \<theta> = Inr blk"
    "0 < h" "h dvd e" "shape x = [b, n, e]"
  shows "\<exists>y. TransformerEncoderBlock_forward blk tr noise x = Inr y \<and> shape y = [b, n, e]"
proof -
  from attention_stage_shape[OF assms, of tr noise] obtain y where
    "attention_stage blk tr noise x = Inr y" "shape y = shape x" by blast
  from residual_shape[of "attention_stage blk tr noise" x y, OF this] obtain x1 where
    x1: "call (ResidualAdd_forward (functional (attention_stage blk tr noise))) x = Inr x1"
      "shape x1 = [b, n, e]"
    using assms(4) by auto
  from feed_forward_stage_shape[OF assms(1) x1(2), of tr noise] obtain z where
    "feed_forward_stage blk tr noise x1 = Inr z" "shape z = shape x1" by blast
  from residual_shape[of "feed_forward_stage blk tr noise" x1 z, OF this] obtain x2 where
    "call (ResidualAdd_forward (functional (feed_forward_stage blk tr noise))) x1 = Inr x2"
      "shape x2 = [b, n, e]"
    using x1(2) by auto
  then show ?thesis using x1 by (simp add: TransformerEncoderBlock_forward_def)
qed

lemma TransformerEncoder_forward_shape:
  assumes "\<forall>blk\<in>set blks. \<exists>p k fp ap \<theta>. TransformerEncoderBlock_init e p k fp h ap \<theta> = Inr blk"
    "0 < h" "h dvd e" "shape x = [b, n, e]"
  shows "\<exists>y. TransformerEncoder_forward blks tr noise x = Inr y \<and> shape y = [b, n, e]"
  using assms(1,4)
proof (induction blks arbitrary: x noise)
  case Nil
  then show ?case by simp
next
  case (Cons blk blks)
  then obtain p k fp ap \<theta> where "TransformerEncoderBlock_init e p k fp h ap \<theta> = Inr blk"
    by auto
  from TransformerEncoderBlock_forward_shape[OF this assms(2,3) Cons.prems(2), of tr "noise 0"]
  obtain y where y: "TransformerEncoderBlock_forward blk tr (noise 0) x = Inr y"
    "shape y = [b, n, e]" by blast
  from Cons.IH[OF _ y(2), of "\<lambda>i. noise (Suc i)"] Cons.prems(1)
  show ?case using y by simp
qed

lemma collect_Inr:
  "collect rs = Inr vs \<Longrightarrow> \<forall>v\<in>set vs. Inr v \<in> set rs"
proof (induction rs arbitrary: vs)
  case Nil
  then show ?case by simp
next
  case (Cons r rs)
  then show ?case
    by (auto simp: bind_err_def split: sum.splits)
qed

lemma collect_ok:
  "\<forall>r\<in>set rs. \<exists>v. r = Inr v \<Longrightarrow> \<exists>vs. collect rs = Inr vs \<and> length vs = length rs"
  by (induction rs) auto

lemma TransformerEncoder_init_blocks:
  assumes "TransformerEncoder_init d kw \<theta> = Inr blks"
  shows "\<forall>blk\<in>set blks. \<exists>p k fp ap \<theta>'.
     TransformerEncoderBlock_init (emb_size kw) p k fp (num_heads kw) ap \<theta>' = Inr blk"
  using collect_Inr[OF assms[unfolded TransformerEncoder_init_def]] by fastforce

lemma TransformerEncoderBlock_init_ok:
  assumes "0 \<le> p" "p \<le> 1" "0 \<le> fp" "fp \<le> 1" "0 \<le> ap" "ap \<le> 1"
  shows "\<exists>blk. TransformerEncoderBlock_init e p k fp h ap \<theta> = Inr blk"
  using assms
  by (simp add: TransformerEncoderBlock_init_def MultiHeadAttention_init_def
      FeedForwardBlock_init_def Dropout_init_def)

lemma TransformerEncoder_init_ok:
  assumes "valid_probabilities kw"
  shows "\<exists>blks. TransformerEncoder_init d kw \<theta> = Inr blks \<and> length blks = d"
proof -
  have "\<forall>r\<in>set (map (\<lambda>i. TransformerEncoderBlock_init (emb_size kw) (drop_p kw)
                          (forward_expansion kw) (forward_drop_p kw) (num_heads kw) (dropout kw)
                          (\<theta> i)) [0..<d]). \<exists>v. r = Inr v"
    using assms TransformerEncoderBlock_init_ok
    by (auto simp: valid_probabilities_def)
  from collect_ok[OF this] show ?thesis
    by (simp add: TransformerEncoder_init_def)
qed

lemma ClassificationHead_forward_shape:
  assumes "shape x = [b, n, e]"
  shows "\<exists>y. ClassificationHead_forward (ClassificationHead_init e nc \<theta>) x = Inr y \<and>
             shape y = [b, nc]"
  using assms
  by (simp add: ClassificationHead_forward_def ClassificationHead_init_def reduce_mean_def
      LayerNorm_forward_def Linear_forward_def)

lemma ViT_forward_shape:
  assumes "0 < patch_size cfg" "patch_size cfg \<le> img_size cfg"
    "0 < num_heads cfg" "num_heads cfg dvd emb_size cfg" "valid_probabilities cfg"
    "shape x = [b, in_channels cfg, img_size cfg, img_size cfg]"
  shows "\<exists>m y. ViT_init cfg \<theta> = Inr m \<and> length (encoder m) = depth cfg \<and>
     PatchEmbedding_init (in_channels cfg) (patch_size cfg) (emb_size cfg) (img_size cfg)
        (patch_embedding_params \<theta>) = Inr (patch_embedding m) \<and>
     ViT_forward m tr noise x = Inr y \<and> shape y = [b, n_classes cfg]"
proof -
  obtain pe where pe: "PatchEmbedding_init (in_channels cfg) (patch_size cfg) (emb_size cfg)
      (img_size cfg) (patch_embedding_params \<theta>) = Inr pe"
    using assms(1) by (simp add: PatchEmbedding_init_def)
  obtain blks where blks: "TransformerEncoder_init (depth cfg) cfg (encoder_params \<theta>) = Inr blks"
    "length blks = depth cfg"
    using TransformerEncoder_init_ok[OF assms(5)] by blast
  let ?m = "\<lparr>patch_embedding = pe, encoder = blks,
            head = ClassificationHead_init (emb_size cfg) (n_classes cfg) (head_params \<theta>)\<rparr>"
  have m: "ViT_init cfg \<theta> = Inr ?m"
    using pe blks by (simp add: ViT_init_def)
  let ?g = "img_size cfg div patch_size cfg"
  have "(?g) ^ 2 = ?g * ?g \<or> ?g = 0" by (simp add: power2_eq_square)
  from PatchEmbedding_result_ok[OF assms(1,6,2,2) this, of "patch_embedding_params \<theta>" "emb_size cfg"]
  obtain x1 where x1: "PatchEmbedding_forward pe x = Inr x1"
    "shape x1 = [b, ?g * ?g + 1, emb_size cfg]"
    using PatchEmbedding_forward_result[OF pe] by auto
  from TransformerEncoder_forward_shape[OF TransformerEncoder_init_blocks[OF blks(1)] assms(3,4) x1(2), of tr noise]
  obtain x2 where x2: "TransformerEncoder_forward blks tr noise x1 = Inr x2"
    "shape x2 = [b, ?g * ?g + 1, emb_size cfg]" by blast
  from ClassificationHead_forward_shape[OF x2(2), of "n_classes cfg" "head_params \<theta>"]
  obtain y where "ClassificationHead_forward
      (ClassificationHead_init (emb_size cfg) (n_classes cfg) (head_params \<theta>)) x2 = Inr y"
    "shape y = [b, n_classes cfg]" by blast
  then have "ViT_forward ?m tr noise x = Inr y \<and> shape y = [b, n_classes cfg]"
    using x1 x2 by (simp add: ViT_forward_def)
  then show ?thesis using m pe blks by auto
qed

section \<open>The whole model\<close>


text \<open>
  C5. For a valid configuration and a batch of \<open>b\<close> images of the configured channel
  count and size, the model is constructed and its forward pass returns a rank-2 tensor
  of shape \<open>(b, n_classes)\<close>, whatever \<open>img_size\<close>, \<open>patch_size\<close> and \<open>depth\<close> are, in
  training mode or not; the default configuration maps \<open>(1, 3, 224, 224)\<close> to
  \<open>(1, 1000)\<close>.
\<close>

theorem ViT_output_shape:
  "(valid_config cfg \<and> shape x = [b, in_channels cfg, img_size cfg, img_size cfg] \<longrightarrow>
      (\<exists>m y. ViT_init cfg \<theta> = Inr m \<and> ViT_forward m training noise x = Inr y \<and>
             shape y = [b, n_classes cfg]))
   \<and> (shape x = [1, 3, 224, 224] \<longrightarrow>
      (\<exists>m y. ViT_init default_config \<theta> = Inr m \<and> ViT_forward m training noise x = Inr y \<and>
             shape y = [1, 1000]))"
proof (intro conjI impI)
  assume a: "valid_config cfg \<and> shape x = [b, in_channels cfg, img_size cfg, img_size cfg]"
  then have "0 < patch_size cfg" "patch_size cfg \<le> img_size cfg"
    "0 < num_heads cfg" "num_heads cfg dvd emb_size cfg" "valid_probabilities cfg"
    by (auto simp: valid_config_def mod_eq_0_iff_dvd dvd_imp_le)
  from ViT_forward_shape[OF this, of x b \<theta> training noise] a
  show "\<exists>m y. ViT_init cfg \<theta> = Inr m \<and> ViT_forward m training noise x = Inr y \<and>
             shape y = [b, n_classes cfg]"
    by blast
next
  assume a: "shape x = [1, 3, 224, 224]"
  have "0 < patch_size default_config" "patch_size default_config \<le> img_size default_config"
    "0 < num_heads default_config" "num_heads default_config dvd emb_size default_config"
    "valid_probabilities default_config"
    "shape x = [1, in_channels default_config, img_size default_config, img_size default_config]"
    using a by (simp_all add: default_config_def valid_probabilities_def)
  from ViT_forward_shape[OF this, of \<theta> training noise]
  show "\<exists>m y. ViT_init default_config \<theta> = Inr m \<and> ViT_forward m training noise x = Inr y \<and>
             shape y = [1, 1000]"
    by (auto simp: default_config_def)
qed

theorem ViT_output_shape_witness:
  "\<exists>m y. ViT_init default_config (const_ViT_params 0) = Inr m \<and>
         ViT_forward m True (\<lambda>i j idx. True) (zeros [1, 3, 224, 224]) = Inr y \<and>
         shape y = [1, 1000]"
proof -
  have "valid_config default_config"
    by (simp add: valid_config_def default_config_def valid_probabilities_def)
  moreover have "shape (zeros [1, 3, 224, 224]) =
      [1, in_channels default_config, img_size default_config, img_size default_config]"
    by (simp add: zeros_def default_config_def)
  moreover have "n_classes default_config = 1000"
    by (simp add: default_config_def)
  ultimately show ?thesis
    using ViT_output_shape[of default_config "zeros [1, 3, 224, 224]" 1 "const_ViT_params 0"
        True "\<lambda>i j idx. True"]
    by simp
qed

lemma tile_index_bound: "i < g \<Longrightarrow> u < p \<Longrightarrow> i * p + u < g * (p::nat)"
proof -
  assume a: "i < g" "u < p"
  then have "i * p + u < Suc i * p" by simp
  also have "\<dots> \<le> g * p" using a(1) by (intro mult_le_mono1) simp
  finally show ?thesis .
qed

lemma tile_embedding_cong:
  assumes "\<And>ch u v. u < p \<Longrightarrow> v < p \<Longrightarrow>
     elem x' [n, ch, i * p + u, j * p + v] = elem x [n, ch, i * p + u, j * p + v]"
  shows "tile_embedding \<theta> c p x' n i j k = tile_embedding \<theta> c p x n i j k"
  using assms by (simp add: tile_embedding_def)

lemma in_bounds3:
  "in_bounds [b, t, e] idx \<longleftrightarrow> (\<exists>n i k. idx = [n, i, k] \<and> n < b \<and> i < t \<and> k < e)"
  by (auto simp: in_bounds_def list_all2_Cons2)

lemma PatchEmbedding_ignores_remainder:
  assumes "0 < p" "shape x = [b, c, h, w]" "shape x' = [b, c, h, w]" "p \<le> h" "p \<le> w"
    and sq: "(s div p) ^ 2 = (h div p) * (w div p)"
    and t: "PatchEmbedding_result \<theta> c p e s x = Inr t"
    and t': "PatchEmbedding_result \<theta> c p e s x' = Inr t'"
    and agree: "\<And>n ch i j. i < (h div p) * p \<Longrightarrow> j < (w div p) * p \<Longrightarrow>
       elem x' [n, ch, i, j] = elem x [n, ch, i, j]"
    and idx: "in_bounds (shape t) idx"
  shows "elem t' idx = elem t idx"
proof -
  from PatchEmbedding_result_ok[OF assms(1,2,4,5), of s \<theta> e] sq t
  have "shape t = [b, (h div p) * (w div p) + 1, e]" by auto
  with idx obtain n i k where
    i: "idx = [n, i, k]" "n < b" "i < (h div p) * (w div p) + 1" "k < e"
    by (auto simp: in_bounds3)
  show ?thesis
  proof (cases i)
    case 0
    then show ?thesis
      using PatchEmbedding_token0[OF t i(4), of n] PatchEmbedding_token0[OF t' i(4), of n] i(1)
      by simp
  next
    case (Suc r)
    then have r: "r < (h div p) * (w div p)" using i(3) by simp
    then have gw: "0 < w div p" by (cases "w div p = 0") auto
    define gi where "gi = r div (w div p)"
    define gj where "gj = r mod (w div p)"
    have gi: "gi < h div p"
      using r gw unfolding gi_def by (simp add: less_mult_imp_div_less)
    have gj: "gj < w div p" using gw unfolding gj_def by simp
    have "gi * (w div p) + gj = r"
      unfolding gi_def gj_def by (rule div_mult_mod_eq)
    then have ri: "i = 1 + (gi * (w div p) + gj)"
      using Suc by simp
    have "tile_embedding \<theta> c p x' n gi gj k = tile_embedding \<theta> c p x n gi gj k"
      by (rule tile_embedding_cong) (simp add: agree tile_index_bound gi gj)
    then show ?thesis
      using PatchEmbedding_tokens[OF assms(1,2,4,5) sq t gi gj i(4), of n]
        PatchEmbedding_tokens[OF assms(1,3,4,5) sq t' gi gj i(4), of n]
      unfolding i(1) ri by simp
  qed
qed

lemma PatchEmbedding_init_positions:
  "PatchEmbedding_init c p e s \<theta> = Inr pe \<Longrightarrow>
   shape (pe_positions pe) = [(s div p) ^ 2 + 1, e]"
  by (auto simp: PatchEmbedding_init_def split: if_splits)

text \<open>
  C10. With \<open>img_size = 225\<close> and \<open>patch_size = 16\<close> the model is constructed, its
  positional table has \<open>(225 div 16)\<^sup>2 + 1 = 197\<close> rows, the tokenizer returns
  \<open>196\<close> patch tokens and the classification token for a batch of shape
  \<open>(b, c, 225, 225)\<close>, and the whole forward pass returns shape \<open>(b, n_classes)\<close>. The
  tokens do not depend on the pixels of row 224 and column 224: a batch that agrees with
  \<open>x\<close> on rows and columns below 224 gives the same tokens.
\<close>

theorem ViT_225_16_runs:
  "img_size cfg = 225 \<and> patch_size cfg = 16 \<and> 0 < in_channels cfg \<and>
   0 < emb_size cfg \<and> 0 < num_heads cfg \<and>
   num_heads cfg dvd emb_size cfg \<and> valid_probabilities cfg \<and>
   shape x = [b, in_channels cfg, 225, 225] \<longrightarrow>
   (\<exists>m t y. ViT_init cfg \<theta> = Inr m \<and>
      shape (pe_positions (patch_embedding m)) = [(225 div 16) ^ 2 + 1, emb_size cfg] \<and>
      PatchEmbedding_forward (patch_embedding m) x = Inr t \<and>
      shape t = [b, 196 + 1, emb_size cfg] \<and>
      ViT_forward m training noise x = Inr y \<and> shape y = [b, n_classes cfg] \<and>
      (\<forall>x' t'. shape x' = shape x \<and>
          (\<forall>n ch i j. i < 224 \<and> j < 224 \<longrightarrow> elem x' [n, ch, i, j] = elem x [n, ch, i, j]) \<and>
          PatchEmbedding_forward (patch_embedding m) x' = Inr t' \<longrightarrow>
          (\<forall>idx. in_bounds (shape t) idx \<longrightarrow> elem t' idx = elem t idx)))"
proof
  assume a: "img_size cfg = 225 \<and> patch_size cfg = 16 \<and> 0 < in_channels cfg \<and>
   0 < emb_size cfg \<and> 0 < num_heads cfg \<and>
   num_heads cfg dvd emb_size cfg \<and> valid_probabilities cfg \<and>
   shape x = [b, in_channels cfg, 225, 225]"
  let ?c = "in_channels cfg" and ?e = "emb_size cfg" and ?\<theta> = "patch_embedding_params \<theta>"
  have h: "0 < patch_size cfg" "patch_size cfg \<le> img_size cfg"
    "0 < num_heads cfg" "num_heads cfg dvd emb_size cfg" "valid_probabilities cfg"
    "shape x = [b, in_channels cfg, img_size cfg, img_size cfg]"
    using a by simp_all
  from ViT_forward_shape[OF h, of \<theta> training noise] obtain m y where
    m: "ViT_init cfg \<theta> = Inr m"
    and pe: "PatchEmbedding_init ?c 16 ?e 225 ?\<theta> = Inr (patch_embedding m)"
    and y: "ViT_forward m training noise x = Inr y" "shape y = [b, n_classes cfg]"
    using a by auto
  have pos: "shape (pe_positions (patch_embedding m)) = [(225 div 16) ^ 2 + 1, ?e]"
    by (rule PatchEmbedding_init_positions[OF pe])
  have sh: "shape x = [b, ?c, 225, 225]" using a by simp
  have sq: "((225::nat) div 16) ^ 2 = (225 div 16) * (225 div 16)" by simp
  from PatchEmbedding_result_ok[of 16 x b ?c 225 225 225 ?\<theta> ?e] sh
  obtain t where t: "PatchEmbedding_result ?\<theta> ?c 16 ?e 225 x = Inr t"
    "shape t = [b, 196 + 1, ?e]"
    by auto
  have fw: "\<And>z. PatchEmbedding_forward (patch_embedding m) z = PatchEmbedding_result ?\<theta> ?c 16 ?e 225 z"
    by (rule PatchEmbedding_forward_result[OF pe])
  have rem: "\<forall>x' t'. shape x' = shape x \<and>
          (\<forall>n ch i j. i < 224 \<and> j < 224 \<longrightarrow> elem x' [n, ch, i, j] = elem x [n, ch, i, j]) \<and>
          PatchEmbedding_forward (patch_embedding m) x' = Inr t' \<longrightarrow>
          (\<forall>idx. in_bounds (shape t) idx \<longrightarrow> elem t' idx = elem t idx)"
  proof (intro allI impI)
    fix x' t' idx
    assume b: "shape x' = shape x \<and>
          (\<forall>n ch i j. i < 224 \<and> j < 224 \<longrightarrow> elem x' [n, ch, i, j] = elem x [n, ch, i, j]) \<and>
          PatchEmbedding_forward (patch_embedding m) x' = Inr t'"
      and idx: "in_bounds (shape t) idx"
    have sh': "shape x' = [b, ?c, 225, 225]" using b sh by simp
    have t': "PatchEmbedding_result ?\<theta> ?c 16 ?e 225 x' = Inr t'" using b fw by simp
    have ag: "\<And>n ch i j. i < (225 div 16) * 16 \<Longrightarrow> j < (225 div 16) * 16 \<Longrightarrow>
       elem x' [n, ch, i, j] = elem x [n, ch, i, j]"
      using b by simp
    show "elem t' idx = elem t idx"
      by (rule PatchEmbedding_ignores_remainder[of 16 x b ?c 225 225 x' 225 ?\<theta> ?e t t' idx])
         (use sh sh' t t' ag idx in simp_all)
  qed
  have tf: "PatchEmbedding_forward (patch_embedding m) x = Inr t"
    using t(1) fw by simp
  show "\<exists>m t y. ViT_init cfg \<theta> = Inr m \<and>
      shape (pe_positions (patch_embedding m)) = [(225 div 16) ^ 2 + 1, emb_size cfg] \<and>
      PatchEmbedding_forward (patch_embedding m) x = Inr t \<and>
      shape t = [b, 196 + 1, emb_size cfg] \<and>
      ViT_forward m training noise x = Inr y \<and> shape y = [b, n_classes cfg] \<and>
      (\<forall>x' t'. shape x' = shape x \<and>
          (\<forall>n ch i j. i < 224 \<and> j < 224 \<longrightarrow> elem x' [n, ch, i, j] = elem x [n, ch, i, j]) \<and>
          PatchEmbedding_forward (patch_embedding m) x' = Inr t' \<longrightarrow>
          (\<forall>idx. in_bounds (shape t) idx \<longrightarrow> elem t' idx = elem t idx))"
    by (intro exI[of _ m] exI[of _ t] exI[of _ y] conjI) (fact m pos tf t(2) y rem)+
qed

theorem ViT_225_16_runs_witness:
  "\<exists>m t y. ViT_init (default_config\<lparr>img_size := 225\<rparr>) (const_ViT_params 0) = Inr m \<and>
      shape (pe_positions (patch_embedding m)) = [197, 768] \<and>
      PatchEmbedding_forward (patch_embedding m) (zeros [2, 3, 225, 225]) = Inr t \<and>
      shape t = [2, 197, 768] \<and>
      ViT_forward m False (\<lambda>i j idx. True) (zeros [2, 3, 225, 225]) = Inr y \<and>
      shape y = [2, 1000]"
proof -
  let ?cfg = "default_config\<lparr>img_size := 225\<rparr>"
  have "img_size ?cfg = 225 \<and> patch_size ?cfg = 16 \<and> 0 < in_channels ?cfg \<and>
   0 < emb_size ?cfg \<and> 0 < num_heads ?cfg \<and>
   num_heads ?cfg dvd emb_size ?cfg \<and> valid_probabilities ?cfg \<and>
   shape (zeros [2, 3, 225, 225]) = [2, in_channels ?cfg, 225, 225]"
    by (simp add: default_config_def valid_probabilities_def zeros_def)
  from ViT_225_16_runs[of ?cfg "zeros [2, 3, 225, 225]" 2 "const_ViT_params 0" False
      "\<lambda>i j idx. True", THEN mp, OF this]
  obtain m t y where "ViT_init ?cfg (const_ViT_params 0) = Inr m"
      "shape (pe_positions (patch_embedding m)) = [(225 div 16) ^ 2 + 1, emb_size ?cfg]"
      "PatchEmbedding_forward (patch_embedding m) (zeros [2, 3, 225, 225]) = Inr t"
      "shape t = [2, 196 + 1, emb_size ?cfg]"
      "ViT_forward m False (\<lambda>i j idx. True) (zeros [2, 3, 225, 225]) = Inr y"
      "shape y = [2, n_classes ?cfg]"
    by (elim exE conjE) (rule that)
  then show ?thesis
    by (intro exI[of _ m] exI[of _ t] exI[of _ y]) (simp add: default_config_def)
qed

section \<open>Heads that do not divide the embedding; masks\<close>


lemma MHA_energy_indivisible:
  assumes "MultiHeadAttention_init e h p \<theta> = Inr m" "0 < h" "\<not> h dvd e" "shape x = [b, n, e]"
  shows "MHA_energy m x = Inl EinopsError"
proof -
  from assms(1) have m: "mha_qkv m = \<lparr>lin_in = e, lin_out = e * 3, lin_weight = qkv_w \<theta>, lin_bias = qkv_b \<theta>\<rparr>"
    "mha_num_heads m = h"
    by (auto simp: MultiHeadAttention_init_def Dropout_init_def split: if_splits)
  have "shape x = [b, n] @ [lin_in (mha_qkv m)]" using assms(4) m by simp
  from Linear_forward_shape[OF this] obtain y where
    y: "Linear_forward (mha_qkv m) x = Inr y" "shape y = [b, n, e * 3]"
    using m by auto
  have "(e * 3) mod (h * 3) \<noteq> 0"
    using assms(2,3) by (simp add: mod_eq_0_iff_dvd)
  then show ?thesis
    using y m assms(2) by (simp add: MHA_energy_def rearrange_qkv_def)
qed

lemma MHA_forward_indivisible:
  assumes "MultiHeadAttention_init e h p \<theta> = Inr m" "0 < h" "\<not> h dvd e" "shape x = [b, n, e]"
  shows "MultiHeadAttention_forward m tr keep x msk = Inl EinopsError"
  using MHA_energy_indivisible[OF assms]
  by (simp add: MultiHeadAttention_forward_def MHA_attention_def)

lemma attention_stage_indivisible:
  assumes "TransformerEncoderBlock_init e p k fp h ap \<theta> = Inr blk"
    "0 < h" "\<not> h dvd e" "shape x = [b, n, e]"
  shows "TransformerEncoderBlock_forward blk tr noise x = Inl EinopsError"
proof -
  note parts = TransformerEncoderBlock_init_parts[OF assms(1)]
  have "shape x = [b, n] @ [ln_dim (norm1 blk)]" using assms(4) parts(1) by simp
  from LayerNorm_forward_shape[OF this] obtain y where
    y: "LayerNorm_forward (norm1 blk) x = Inr y" "shape y = [b, n, e]"
    using assms(4) by auto
  have "attention_stage blk tr noise x = Inl EinopsError"
    using y MHA_forward_indivisible[OF parts(3) assms(2,3) y(2)]
    by (simp add: attention_stage_def)
  then show ?thesis
    by (simp add: TransformerEncoderBlock_forward_def call_ResidualAdd_functional_error)
qed

text \<open>
  C1, amended. The constructor checks no divisibility: with a patch size that is not 0
  and dropout probabilities in \<open>[0, 1]\<close> the model is constructed, whether \<open>num_heads\<close>
  divides \<open>emb_size\<close> or not. When it does not (and \<open>depth > 0\<close>), the failure comes with
  the forward pass: on a batch of the configured size it raises EinopsError, in the
  attention layer of the first block, where the projection of width \<open>3 * emb_size\<close> is
  split into \<open>num_heads * 3\<close> groups.
\<close>

theorem ViT_indivisible_heads:
  "0 < patch_size cfg \<and> valid_probabilities cfg \<longrightarrow>
   (\<exists>m. ViT_init cfg \<theta> = Inr m \<and>
      (0 < depth cfg \<and> 0 < in_channels cfg \<and> 0 < num_heads cfg \<and>
       \<not> num_heads cfg dvd emb_size cfg \<and>
       patch_size cfg \<le> img_size cfg \<and>
       shape x = [b, in_channels cfg, img_size cfg, img_size cfg] \<longrightarrow>
       ViT_forward m training noise x = Inl EinopsError))"
proof
  assume a: "0 < patch_size cfg \<and> valid_probabilities cfg"
  obtain pe where pe: "PatchEmbedding_init (in_channels cfg) (patch_size cfg) (emb_size cfg)
      (img_size cfg) (patch_embedding_params \<theta>) = Inr pe"
    using a by (simp add: PatchEmbedding_init_def)
  obtain blks where blks: "TransformerEncoder_init (depth cfg) cfg (encoder_params \<theta>) = Inr blks"
    "length blks = depth cfg"
    using TransformerEncoder_init_ok a by blast
  let ?m = "\<lparr>patch_embedding = pe, encoder = blks,
            head = ClassificationHead_init (emb_size cfg) (n_classes cfg) (head_params \<theta>)\<rparr>"
  have m: "ViT_init cfg \<theta> = Inr ?m"
    using pe blks by (simp add: ViT_init_def)
  have "ViT_forward ?m training noise x = Inl EinopsError"
    if b: "0 < depth cfg \<and> 0 < in_channels cfg \<and> 0 < num_heads cfg \<and>
       \<not> num_heads cfg dvd emb_size cfg \<and>
       patch_size cfg \<le> img_size cfg \<and>
       shape x = [b, in_channels cfg, img_size cfg, img_size cfg]"
  proof -
    let ?g = "img_size cfg div patch_size cfg"
    have sq: "(?g) ^ 2 = ?g * ?g \<or> ?g = 0" by (simp add: power2_eq_square)
    have p: "0 < patch_size cfg" and le: "patch_size cfg \<le> img_size cfg"
      and sh: "shape x = [b, in_channels cfg, img_size cfg, img_size cfg]"
      using a b by simp_all
    from PatchEmbedding_result_ok[OF p sh le le sq, of "patch_embedding_params \<theta>" "emb_size cfg"]
    obtain x1 where x1: "PatchEmbedding_forward pe x = Inr x1"
      "shape x1 = [b, ?g * ?g + 1, emb_size cfg]"
      using PatchEmbedding_forward_result[OF pe] by auto
    from b blks(2) obtain blk rest where br: "blks = blk # rest"
      by (cases blks) auto
    with TransformerEncoder_init_blocks[OF blks(1)] obtain p' k fp ap \<theta>' where
      "TransformerEncoderBlock_init (emb_size cfg) p' k fp (num_heads cfg) ap \<theta>' = Inr blk"
      by auto
    from attention_stage_indivisible[OF this _ _ x1(2), of training "noise 0"] b
    have "TransformerEncoderBlock_forward blk training (noise 0) x1 = Inl EinopsError"
      by simp
    then show ?thesis
      using x1 br by (simp add: ViT_forward_def)
  qed
  then show "\<exists>m. ViT_init cfg \<theta> = Inr m \<and>
      (0 < depth cfg \<and> 0 < in_channels cfg \<and> 0 < num_heads cfg \<and>
       \<not> num_heads cfg dvd emb_size cfg \<and>
       patch_size cfg \<le> img_size cfg \<and>
       shape x = [b, in_channels cfg, img_size cfg, img_size cfg] \<longrightarrow>
       ViT_forward m training noise x = Inl EinopsError)"
    using m by (intro exI[of _ ?m] conjI impI)
qed

theorem ViT_indivisible_heads_witness:
  "\<exists>m. ViT_init (default_config\<lparr>emb_size := 100, num_heads := 8\<rparr>) (const_ViT_params 0) = Inr m \<and>
       ViT_forward m False (\<lambda>i j idx. True) (zeros [1, 3, 224, 224]) = Inl EinopsError"
proof -
  let ?cfg = "default_config\<lparr>emb_size := 100, num_heads := 8\<rparr>"
  have h: "0 < patch_size ?cfg \<and> valid_probabilities ?cfg"
    by (simp add: default_config_def valid_probabilities_def)
  have f: "0 < depth ?cfg \<and> 0 < in_channels ?cfg \<and> 0 < num_heads ?cfg \<and>
       \<not> num_heads ?cfg dvd emb_size ?cfg \<and>
       patch_size ?cfg \<le> img_size ?cfg \<and>
       shape (zeros [1, 3, 224, 224]) = [1, in_channels ?cfg, img_size ?cfg, img_size ?cfg]"
    by (simp add: default_config_def zeros_def)
  from ViT_indivisible_heads[of ?cfg "const_ViT_params 0" "zeros [1, 3, 224, 224]" 1 False
      "\<lambda>i j idx. True", THEN mp, OF h]
  obtain m where "ViT_init ?cfg (const_ViT_params 0) = Inr m"
    "0 < depth ?cfg \<and> 0 < in_channels ?cfg \<and> 0 < num_heads ?cfg \<and>
       \<not> num_heads ?cfg dvd emb_size ?cfg \<and>
       patch_size ?cfg \<le> img_size ?cfg \<and>
       shape (zeros [1, 3, 224, 224]) = [1, in_channels ?cfg, img_size ?cfg, img_size ?cfg] \<longrightarrow>
       ViT_forward m False (\<lambda>i j idx. True) (zeros [1, 3, 224, 224]) = Inl EinopsError"
    by (elim exE conjE) (rule that)
  with f show ?thesis by blast
qed

text \<open>
  C1, as stated, is false: constructing the model with \<open>emb_size = 100\<close> and
  \<open>num_heads = 8\<close> (the other arguments at their defaults) raises nothing.
\<close>

theorem ViT_100_8_is_constructed:
  "isl (ViT_init (default_config\<lparr>emb_size := 100, num_heads := 8\<rparr>) (const_ViT_params 0)) = False"
proof -
  let ?cfg = "default_config\<lparr>emb_size := 100, num_heads := 8\<rparr>"
  have "valid_probabilities ?cfg"
    by (simp add: default_config_def valid_probabilities_def)
  from TransformerEncoder_init_ok[OF this, of "depth ?cfg" "encoder_params (const_ViT_params 0)"]
  obtain blks where
    "TransformerEncoder_init (depth ?cfg) ?cfg (encoder_params (const_ViT_params 0)) = Inr blks"
    by blast
  then show ?thesis
    by (simp add: ViT_init_def PatchEmbedding_init_def default_config_def)
qed

text \<open>
  C2. What the code does with a mask: for an attention layer whose \<open>num_heads\<close> divides
  \<open>emb_size\<close> and an input of shape \<open>(b, n, emb_size)\<close>, the forward pass with any mask
  raises AttributeError. No score is filled and no attention weight is computed, so the
  masking property does not hold of the code.
\<close>

theorem masked_forward_raises:
  "MultiHeadAttention_init e h p \<theta> = Inr m \<and> 0 < e \<and> 0 < h \<and> h dvd e \<and>
   shape x = [b, n, e] \<longrightarrow>
   MultiHeadAttention_forward m training keep x (Some mk) = Inl AttributeError"
proof
  assume a: "MultiHeadAttention_init e h p \<theta> = Inr m \<and> 0 < e \<and> 0 < h \<and> h dvd e \<and>
   shape x = [b, n, e]"
  then obtain energy vals where "MHA_energy m x = Inr (energy, vals)"
    using MHA_energy_shape[of e h p \<theta> m x b n] by blast
  then show "MultiHeadAttention_forward m training keep x (Some mk) = Inl AttributeError"
    by (simp add: MultiHeadAttention_forward_def MHA_attention_def mask_branch_def)
qed

theorem masked_forward_raises_witness:
  "\<exists>m. MultiHeadAttention_init 8 2 0 (const_MultiHeadAttention_params 1) = Inr m \<and>
       MultiHeadAttention_forward m False (\<lambda>idx. True) (zeros [1, 2, 8])
         (Some \<lparr>shape = [1, 2, 2], elem = (\<lambda>idx. if last idx = 1 then 0 else 1)\<rparr>)
       = Inl AttributeError"
proof -
  obtain m where m: "MultiHeadAttention_init 8 2 0 (const_MultiHeadAttention_params 1) = Inr m"
    by (simp add: MultiHeadAttention_init_def Dropout_init_def)
  have "MultiHeadAttention_init 8 2 0 (const_MultiHeadAttention_params 1) = Inr m \<and>
     (0::nat) < 8 \<and> (0::nat) < 2 \<and> (2::nat) dvd 8 \<and> shape (zeros [1, 2, 8]) = [1, 2, 8]"
    using m by (simp add: zeros_def)
  from masked_forward_raises[THEN mp, OF this] m show ?thesis by blast
qed

section \<open>Attention weights\<close>

lemma softmax_row_sum:
  assumes "0 < n"
  shows "(\<Sum>k<n. softmax_row a n k / c) = 1 / c"
proof -
  have pos: "0 < (\<Sum>l<n. exp (a l))"
    using assms by (intro sum_pos) auto
  have "(\<Sum>k<n. softmax_row a n k / c) = (\<Sum>k<n. exp (a k) / ((\<Sum>l<n. exp (a l)) * c))"
    by (simp add: softmax_row_def)
  also have "\<dots> = (\<Sum>k<n. exp (a k)) / ((\<Sum>l<n. exp (a l)) * c)"
    by (rule sum_divide_distrib[symmetric])
  also have "\<dots> = 1 / c" using pos by simp
  finally show ?thesis .
qed

lemma elem_scaled_softmax:
  assumes "shape energy = [b, h, n, n']"
  shows "elem (div_scalar (softmax_last energy) c) [i, j, q, k] =
     softmax_row (\<lambda>l. elem energy [i, j, q, l]) n' k / c"
  using assms by (simp add: div_scalar_def softmax_last_def softmax_row_def)

lemma einsum_qk_explicit:
  assumes "shape q = [b, h, n, d]" "shape k = [b, h, n', d]"
  shows "\<exists>out. einsum_qk q k = Inr out \<and> shape out = [b, h, n, n'] \<and>
     (\<forall>i j a l. elem out [i, j, a, l] = (\<Sum>u<d. elem q [i, j, a, u] * elem k [i, j, l, u]))"
  using assms by (simp add: einsum_qk_def)

lemma einsum_av_explicit:
  assumes "shape a = [b, h, n, l]" "shape v = [b, h, l, d]"
  shows "\<exists>out. einsum_av a v = Inr out \<and> shape out = [b, h, n, d] \<and>
     (\<forall>i j q u. elem out [i, j, q, u] = (\<Sum>k<l. elem a [i, j, q, k] * elem v [i, j, k, u]))"
  using assms by (simp add: einsum_av_def)

lemma MHA_energy_explicit:
  assumes "MultiHeadAttention_init e h p \<theta> = Inr m" "0 < h" "h dvd e" "shape x = [b, n, e]"
  shows "\<exists>energy vals. MHA_energy m x = Inr (energy, vals) \<and>
           shape energy = [b, h, n, n] \<and> shape vals = [b, h, n, e div h] \<and>
           (\<forall>i j q k. elem energy [i, j, q, k] = raw_score \<theta> e h x i j q k) \<and>
           (\<forall>i j k u. elem vals [i, j, k, u] = value_component \<theta> e h x i j k u)"
proof -
  from assms(1) have m: "mha_qkv m = \<lparr>lin_in = e, lin_out = e * 3, lin_weight = qkv_w \<theta>, lin_bias = qkv_b \<theta>\<rparr>"
    "mha_num_heads m = h"
    by (auto simp: MultiHeadAttention_init_def Dropout_init_def split: if_splits)
  define y where "y = \<lparr>shape = [b, n, e * 3],
      elem = (\<lambda>idx. qkv_b \<theta> [last idx] +
                (\<Sum>l<e. elem x (butlast idx @ [l]) * qkv_w \<theta> [last idx, l]))\<rparr>"
  have y: "Linear_forward (mha_qkv m) x = Inr y"
    using assms(4) m by (simp add: Linear_forward_def y_def)
  have ye: "\<And>i q c. elem y [i, q, c] = qkv_projection \<theta> e x i q c"
    by (simp add: y_def qkv_projection_def)
  have sy: "shape y = [b, n, e * 3]" by (simp add: y_def)
  note ar = heads_arith[OF assms(2,3)]
  define qkv where "qkv = \<lparr>shape = [3, b, h, n, e div h],
      elem = (\<lambda>idx. case idx of
                    [k, i, j, q, u] \<Rightarrow> elem y [i, q, (j * (e div h) + u) * 3 + k]
                  | _ \<Rightarrow> 0)\<rparr>"
  have r: "rearrange_qkv h y = Inr qkv"
    using sy ar assms(2) by (simp add: rearrange_qkv_def qkv_def Let_def)
  have s0: "shape (select0 qkv 0) = [b, h, n, e div h]"
    and s1: "shape (select0 qkv 1) = [b, h, n, e div h]"
    by (simp_all add: select0_def qkv_def)
  from einsum_qk_explicit[OF s0 s1] obtain energy where
    en: "einsum_qk (select0 qkv 0) (select0 qkv 1) = Inr energy"
    and se: "shape energy = [b, h, n, n]"
    and ee: "\<forall>i j a l. elem energy [i, j, a, l] =
       (\<Sum>u<e div h. elem (select0 qkv 0) [i, j, a, u] * elem (select0 qkv 1) [i, j, l, u])"
    by blast
  have "MHA_energy m x = Inr (energy, select0 qkv 2)"
    using y r en m by (simp add: MHA_energy_def Let_def)
  moreover note se
  moreover have "shape (select0 qkv 2) = [b, h, n, e div h]"
    by (simp add: select0_def qkv_def)
  moreover have "\<forall>i j q k. elem energy [i, j, q, k] = raw_score \<theta> e h x i j q k"
    by (simp add: ee select0_def qkv_def ye raw_score_def)
  moreover have "\<forall>i j k u. elem (select0 qkv 2) [i, j, k, u] = value_component \<theta> e h x i j k u"
    by (simp add: select0_def qkv_def ye value_component_def)
  ultimately show ?thesis by blast
qed

lemma MHA_attention_dropout:
  assumes "MultiHeadAttention_init e h p \<theta> = Inr m" "MHA_energy m x = Inr (energy, vals)"
  shows "MHA_attention m training keep x None =
     Inr (Dropout_forward \<lparr>drop_prob = p\<rparr> training keep
            (div_scalar (softmax_last energy) (sqrt (real e))), vals)"
proof -
  from assms(1) have m: "mha_emb_size m = e" "mha_att_drop m = \<lparr>drop_prob = p\<rparr>"
    by (auto simp: MultiHeadAttention_init_def Dropout_init_def split: if_splits)
  show ?thesis
    using assms(2) m by (simp add: MHA_attention_def mask_branch_def Let_def)
qed

text \<open>
  C4, as stated, is false: it has no condition on dropout. The layer applies dropout to
  the attention weights before the weighted sum; in training mode with probability
  \<open>1 / 2\<close>, and a sample that drops every weight of the row, the row of weights that
  enters the weighted sum adds up to 0, not to \<open>1 / sqrt 4\<close>.
\<close>

theorem attention_dropout_changes_row_sum:
  "att_row_sum (MHA_attention_result (const_MultiHeadAttention_params 1) 4 2 (1 / 2) True
       (\<lambda>idx. False) (zeros [1, 3, 4]) None) 3 [0, 1, 2] = Inr 0 \<and>
   att_row_sum (MHA_attention_result (const_MultiHeadAttention_params 1) 4 2 (1 / 2) True
       (\<lambda>idx. False) (zeros [1, 3, 4]) None) 3 [0, 1, 2] \<noteq> Inr (1 / sqrt (real 4))"
proof -
  let ?\<theta> = "const_MultiHeadAttention_params 1"
  obtain m where m: "MultiHeadAttention_init 4 2 (1 / 2) ?\<theta> = Inr m"
    by (simp add: MultiHeadAttention_init_def Dropout_init_def)
  have sh: "shape (zeros [1, 3, 4]) = [1, 3, 4]" by (simp add: zeros_def)
  from MHA_energy_explicit[OF m _ _ sh] obtain energy vals where
    ev: "MHA_energy m (zeros [1, 3, 4]) = Inr (energy, vals)"
    by auto
  have "MHA_attention m True (\<lambda>idx. False) (zeros [1, 3, 4]) None =
     Inr (Dropout_forward \<lparr>drop_prob = 1 / 2\<rparr> True (\<lambda>idx. False)
            (div_scalar (softmax_last energy) (sqrt (real 4))), vals)"
    by (rule MHA_attention_dropout[OF m ev])
  then have "att_row_sum (MHA_attention_result ?\<theta> 4 2 (1 / 2) True
       (\<lambda>idx. False) (zeros [1, 3, 4]) None) 3 [0, 1, 2] = Inr 0"
    using m by (simp add: MHA_attention_result_def att_row_sum_def Dropout_forward_def)
  then show ?thesis by simp
qed

text \<open>
  C4, amended. Without a mask, for an attention layer whose \<open>num_heads\<close> divides
  \<open>emb_size\<close>: the scores \<open>energy\<close> are the raw dot products of queries and keys, with
  no scaling; the division by \<open>sqrt emb_size\<close> is applied to their softmax. Before
  dropout the weight at \<open>[i, j, q, k]\<close> is the softmax of row \<open>[i, j, q]\<close> of the raw
  scores at \<open>k\<close>, over \<open>sqrt emb_size\<close>; dropout, when active (training mode and
  probability \<open>p\<close> not 0), sets the dropped weights to 0 and divides the kept ones by
  \<open>1 - p\<close>. The weights after dropout are the ones in the weighted sum of the values.
  With dropout inactive (evaluation mode, or probability 0, the default) every row of
  weights sums to \<open>1 / sqrt emb_size\<close>, not to 1.
\<close>

theorem attention_scaled_after_softmax:
  "MultiHeadAttention_init e h p \<theta> = Inr m \<and> 0 < e \<and> 0 < h \<and> h dvd e \<and>
   shape x = [b, n, e] \<longrightarrow>
   (\<exists>energy vals att out.
      MHA_energy m x = Inr (energy, vals) \<and>
      (\<forall>i j q k. elem energy [i, j, q, k] = raw_score \<theta> e h x i j q k) \<and>
      (\<forall>i j k u. elem vals [i, j, k, u] = value_component \<theta> e h x i j k u) \<and>
      MHA_attention m training keep x None = Inr (att, vals) \<and>
      (\<forall>i j q k. elem att [i, j, q, k] =
         (if training \<and> p \<noteq> 0
          then (if keep [i, j, q, k]
                then softmax_row (raw_score \<theta> e h x i j q) n k / sqrt (real e) / (1 - p)
                else 0)
          else softmax_row (raw_score \<theta> e h x i j q) n k / sqrt (real e))) \<and>
      einsum_av att vals = Inr out \<and>
      (\<forall>i j q u. elem out [i, j, q, u] =
         (\<Sum>k<n. elem att [i, j, q, k] * value_component \<theta> e h x i j k u)) \<and>
      MultiHeadAttention_forward m training keep x None =
        bind_err (rearrange_heads out) (Linear_forward (mha_projection m)) \<and>
      ((\<not> training \<or> p = 0) \<and> 0 < n \<longrightarrow>
         (\<forall>i j q. (\<Sum>k<n. elem att [i, j, q, k]) = 1 / sqrt (real e))))"
proof
  assume a: "MultiHeadAttention_init e h p \<theta> = Inr m \<and> 0 < e \<and> 0 < h \<and> h dvd e \<and>
   shape x = [b, n, e]"
  then obtain energy vals where ev: "MHA_energy m x = Inr (energy, vals)"
    "shape energy = [b, h, n, n]" "shape vals = [b, h, n, e div h]"
    and en: "\<forall>i j q k. elem energy [i, j, q, k] = raw_score \<theta> e h x i j q k"
    and va: "\<forall>i j k u. elem vals [i, j, k, u] = value_component \<theta> e h x i j k u"
    using MHA_energy_explicit[of e h p \<theta> m x b n] by blast
  define att where "att = Dropout_forward \<lparr>drop_prob = p\<rparr> training keep
            (div_scalar (softmax_last energy) (sqrt (real e)))"
  have at: "MHA_attention m training keep x None = Inr (att, vals)"
    unfolding att_def using MHA_attention_dropout[of e h p \<theta> m x energy vals] a ev(1) by blast
  have row: "\<And>i j q. (\<lambda>l. elem energy [i, j, q, l]) = raw_score \<theta> e h x i j q"
    using en by auto
  have sm: "\<And>i j q k. elem (div_scalar (softmax_last energy) (sqrt (real e))) [i, j, q, k] =
      softmax_row (raw_score \<theta> e h x i j q) n k / sqrt (real e)"
    using elem_scaled_softmax[OF ev(2)] row by simp
  have el: "\<forall>i j q k. elem att [i, j, q, k] =
         (if training \<and> p \<noteq> 0
          then (if keep [i, j, q, k]
                then softmax_row (raw_score \<theta> e h x i j q) n k / sqrt (real e) / (1 - p)
                else 0)
          else softmax_row (raw_score \<theta> e h x i j q) n k / sqrt (real e))"
    unfolding att_def using sm by (auto simp: Dropout_forward_def)
  have sha: "shape att = [b, h, n, n]"
    by (simp add: att_def ev(2))
  from einsum_av_explicit[OF sha ev(3)] obtain out where
    out: "einsum_av att vals = Inr out"
    and oe: "\<forall>i j q u. elem out [i, j, q, u] = (\<Sum>k<n. elem att [i, j, q, k] * elem vals [i, j, k, u])"
    by blast
  have oe': "\<forall>i j q u. elem out [i, j, q, u] =
         (\<Sum>k<n. elem att [i, j, q, k] * value_component \<theta> e h x i j k u)"
    using oe va by simp
  have fw: "MultiHeadAttention_forward m training keep x None =
        bind_err (rearrange_heads out) (Linear_forward (mha_projection m))"
    using at out by (simp add: MultiHeadAttention_forward_def)
  have rs: "(\<not> training \<or> p = 0) \<and> 0 < n \<longrightarrow>
         (\<forall>i j q. (\<Sum>k<n. elem att [i, j, q, k]) = 1 / sqrt (real e))"
  proof
    assume b: "(\<not> training \<or> p = 0) \<and> 0 < n"
    then have "\<forall>i j q k. elem att [i, j, q, k] =
        softmax_row (raw_score \<theta> e h x i j q) n k / sqrt (real e)"
      using el by auto
    then show "\<forall>i j q. (\<Sum>k<n. elem att [i, j, q, k]) = 1 / sqrt (real e)"
      using b softmax_row_sum by simp
  qed
  show "\<exists>energy vals att out.
      MHA_energy m x = Inr (energy, vals) \<and>
      (\<forall>i j q k. elem energy [i, j, q, k] = raw_score \<theta> e h x i j q k) \<and>
      (\<forall>i j k u. elem vals [i, j, k, u] = value_component \<theta> e h x i j k u) \<and>
      MHA_attention m training keep x None = Inr (att, vals) \<and>
      (\<forall>i j q k. elem att [i, j, q, k] =
         (if training \<and> p \<noteq> 0
          then (if keep [i, j, q, k]
                then softmax_row (raw_score \<theta> e h x i j q) n k / sqrt (real e) / (1 - p)
                else 0)
          else softmax_row (raw_score \<theta> e h x i j q) n k / sqrt (real e))) \<and>
      einsum_av att vals = Inr out \<and>
      (\<forall>i j q u. elem out [i, j, q, u] =
         (\<Sum>k<n. elem att [i, j, q, k] * value_component \<theta> e h x i j k u)) \<and>
      MultiHeadAttention_forward m training keep x None =
        bind_err (rearrange_heads out) (Linear_forward (mha_projection m)) \<and>
      ((\<not> training \<or> p = 0) \<and> 0 < n \<longrightarrow>
         (\<forall>i j q. (\<Sum>k<n. elem att [i, j, q, k]) = 1 / sqrt (real e)))"
    by (intro exI[of _ energy] exI[of _ vals] exI[of _ att] exI[of _ out] conjI)
       (fact ev(1) en va at el out oe' fw rs)+
qed

theorem attention_scaled_after_softmax_witness:
  "\<exists>m energy vals att.
      MultiHeadAttention_init 4 2 (1 / 2) (const_MultiHeadAttention_params 1) = Inr m \<and>
      MHA_energy m (zeros [1, 3, 4]) = Inr (energy, vals) \<and>
      elem energy [0, 1, 2, 0] = 2 \<and>
      MHA_attention m False (\<lambda>idx. False) (zeros [1, 3, 4]) None = Inr (att, vals) \<and>
      elem att [0, 1, 2, 0] = 1 / 6 \<and>
      (\<Sum>k<3. elem att [0, 1, 2, k]) = 1 / 2"
proof -
  let ?\<theta> = "const_MultiHeadAttention_params 1"
  obtain m where m: "MultiHeadAttention_init 4 2 (1 / 2) ?\<theta> = Inr m"
    by (simp add: MultiHeadAttention_init_def Dropout_init_def)
  have "MultiHeadAttention_init 4 2 (1 / 2) ?\<theta> = Inr m \<and>
     (0::nat) < 4 \<and> (0::nat) < 2 \<and> (2::nat) dvd 4 \<and> shape (zeros [1, 3, 4]) = [1, 3, 4]"
    using m by (simp add: zeros_def)
  from attention_scaled_after_softmax[THEN mp, OF this, of False "\<lambda>idx. False"]
  obtain energy vals att where f:
    "MHA_energy m (zeros [1, 3, 4]) = Inr (energy, vals)"
    "\<forall>i j q k. elem energy [i, j, q, k] = raw_score ?\<theta> 4 2 (zeros [1, 3, 4]) i j q k"
    "MHA_attention m False (\<lambda>idx. False) (zeros [1, 3, 4]) None = Inr (att, vals)"
    "\<forall>i j q k. elem att [i, j, q, k] =
         (if False \<and> (1 / 2 :: real) \<noteq> 0
          then (if (\<lambda>idx. False) [i, j, q, k]
                then softmax_row (raw_score ?\<theta> 4 2 (zeros [1, 3, 4]) i j q) 3 k / sqrt (real 4) / (1 - 1 / 2)
                else 0)
          else softmax_row (raw_score ?\<theta> 4 2 (zeros [1, 3, 4]) i j q) 3 k / sqrt (real 4))"
    "(\<not> False \<or> (1 / 2 :: real) = 0) \<and> (0::nat) < 3 \<longrightarrow>
         (\<forall>i j q. (\<Sum>k<3. elem att [i, j, q, k]) = 1 / sqrt (real 4))"
    by (elim exE conjE) (rule that)
  have two: "{..<(2::nat)} = {0, 1}" and three: "{..<(3::nat)} = {0, 1, 2}" by auto
  have rsc: "\<And>i j q k. raw_score ?\<theta> 4 2 (zeros [1, 3, 4]) i j q k = 2"
    by (simp add: raw_score_def qkv_projection_def const_MultiHeadAttention_params_def zeros_def two)
  have e0: "elem energy [0, 1, 2, 0] = 2" using f(2) rsc by simp
  have a0: "elem att [0, 1, 2, 0] = 1 / 6"
    using f(4) rsc by (simp add: softmax_row_def three)
  have rs: "(\<Sum>k<3. elem att [0, 1, 2, k]) = 1 / 2"
    using f(5) by simp
  show ?thesis
    by (intro exI[of _ m] exI[of _ energy] exI[of _ vals] exI[of _ att] conjI)
       (fact m f(1) e0 f(3) a0 rs)+
qed

section \<open>The classification head\<close>


text \<open>
  C8. On a token sequence of shape \<open>(b, n, e)\<close> the classification head first averages
  the embeddings over all \<open>n\<close> token positions, position 0 included; logit \<open>c\<close> of item
  \<open>i\<close> is the linear projection (weights \<open>head_w\<close>, bias \<open>head_b\<close>) of the layer
  normalization of that mean vector.
\<close>

theorem head_pools_by_mean:
  "0 < n \<and> 0 < e \<and> shape x = [b, n, e] \<longrightarrow>
   (\<exists>pooled y.
      reduce_mean x = Inr pooled \<and> shape pooled = [b, e] \<and>
      (\<forall>i k. elem pooled [i, k] = mean_over_tokens x n i k) \<and>
      ClassificationHead_forward (ClassificationHead_init e nc \<theta>) x = Inr y \<and>
      shape y = [b, nc] \<and>
      (\<forall>i c. elem y [i, c] =
         head_b \<theta> [c] +
         (\<Sum>k<e. normalized e (head_norm_w \<theta>) (head_norm_b \<theta>) (mean_over_tokens x n i) k *
                  head_w \<theta> [c, k])))"
  by (simp add: reduce_mean_def ClassificationHead_forward_def ClassificationHead_init_def
      LayerNorm_forward_def Linear_forward_def mean_over_tokens_def normalized_def Let_def)

theorem head_pools_by_mean_witness:
  "\<exists>pooled y.
      reduce_mean \<lparr>shape = [1, 3, 2], elem = (\<lambda>idx. real (idx ! 1))\<rparr> = Inr pooled \<and>
      elem pooled [0, 0] = 1 \<and>
      elem \<lparr>shape = [1, 3, 2], elem = (\<lambda>idx. real (idx ! 1))\<rparr> [0, 0, 0] = 0 \<and>
      ClassificationHead_forward (ClassificationHead_init 2 5 (head_params (const_ViT_params 1)))
        \<lparr>shape = [1, 3, 2], elem = (\<lambda>idx. real (idx ! 1))\<rparr> = Inr y \<and>
      shape y = [1, 5]"
proof -
  let ?x = "\<lparr>shape = [1, 3, 2], elem = (\<lambda>idx. real (idx ! 1))\<rparr>"
  have "(0::nat) < 3 \<and> (0::nat) < 2 \<and> shape ?x = [1, 3, 2]" by simp
  from head_pools_by_mean[THEN mp, OF this, of 5 "head_params (const_ViT_params 1)"]
  obtain pooled y where p: "reduce_mean ?x = Inr pooled"
    "\<forall>i k. elem pooled [i, k] = mean_over_tokens ?x 3 i k"
    "ClassificationHead_forward (ClassificationHead_init 2 5 (head_params (const_ViT_params 1))) ?x = Inr y"
    "shape y = [1, 5]"
    by (elim exE conjE) (rule that)
  have "{..<(3::nat)} = {0, 1, 2}" by auto
  then have "mean_over_tokens ?x 3 0 0 = 1"
    by (simp add: mean_over_tokens_def)
  then have "elem pooled [0, 0] = 1" using p(2) by simp
  then show ?thesis
    using p by (intro exI[of _ pooled] exI[of _ y]) simp
qed

end
